theory Spec2Isabelle
  imports Complex_Main "HOL-Library.Sublist"
begin

section \<open>Python values, errors and emitted rows\<close>

text \<open>
  The order records of \<^verbatim>\<open>export.py\<close> are the decoded JSON answers of the brokerage API:
  dictionaries from field names to strings, numbers, \<^verbatim>\<open>None\<close>, lists and further
  dictionaries. A dictionary is an association list read with \<open>map_of\<close> (keys are taken to
  be distinct, as in a Python dict). \<open>PNum x\<close> is a number of value \<open>x\<close>; \<open>PNaN\<close>, \<open>PInf\<close>
  and \<open>PNegInf\<close> are the floats \<^verbatim>\<open>nan\<close> (which pandas uses for missing data), \<^verbatim>\<open>inf\<close> and
  \<^verbatim>\<open>-inf\<close>.
\<close>

datatype pyval =
    PNone
  | PStr string
  | PNum real
  | PNaN
  | PInf
  | PNegInf
  | PList "pyval list"
  | PDict "(string \<times> pyval) list"

datatype py_error =
    KeyError string
  | TypeError
  | ValueError
  | ZeroDivisionError
  | FileNotFoundError
  | NotADirectoryError
  | IsADirectoryError
  | PermissionError
  | OSError nat
  | NotLoggedIn
  | ApiError string

type_synonym row = "pyval list"

text \<open>Sequencing of computations that may raise: the first exception ends the evaluation.\<close>

definition pbind :: "py_error + 'a \<Rightarrow> ('a \<Rightarrow> py_error + 'b) \<Rightarrow> py_error + 'b" where
  "pbind m f = (case m of Inl e \<Rightarrow> Inl e | Inr x \<Rightarrow> f x)"

text \<open>\<^verbatim>\<open>obj[key]\<close> with a string key: only a dictionary can be subscripted by a string.\<close>

fun subscript :: "pyval \<Rightarrow> string \<Rightarrow> py_error + pyval" where
  "subscript (PDict kvs) k = (case map_of kvs k of None \<Rightarrow> Inl (KeyError k) | Some v \<Rightarrow> Inr v)"
| "subscript PNone k = Inl TypeError"
| "subscript (PStr s) k = Inl TypeError"
| "subscript (PNum x) k = Inl TypeError"
| "subscript PNaN k = Inl TypeError"
| "subscript PInf k = Inl TypeError"
| "subscript PNegInf k = Inl TypeError"
| "subscript (PList xs) k = Inl TypeError"

text \<open>\<^verbatim>\<open>len(obj)\<close>.\<close>

fun py_len :: "pyval \<Rightarrow> py_error + nat" where
  "py_len (PList xs) = Inr (length xs)"
| "py_len (PStr s) = Inr (length s)"
| "py_len (PDict kvs) = Inr (length kvs)"
| "py_len PNone = Inl TypeError"
| "py_len (PNum x) = Inl TypeError"
| "py_len PNaN = Inl TypeError"
| "py_len PInf = Inl TypeError"
| "py_len PNegInf = Inl TypeError"

text \<open>The items a \<^verbatim>\<open>for\<close> loop draws from an object: the elements of a list, the
  characters of a string, the keys of a dictionary.\<close>

fun py_iter :: "pyval \<Rightarrow> py_error + pyval list" where
  "py_iter (PList xs) = Inr xs"
| "py_iter (PStr s) = Inr (map (\<lambda>c. PStr [c]) s)"
| "py_iter (PDict kvs) = Inr (map (\<lambda>kv. PStr (fst kv)) kvs)"
| "py_iter PNone = Inl TypeError"
| "py_iter (PNum x) = Inl TypeError"
| "py_iter PNaN = Inl TypeError"
| "py_iter PInf = Inl TypeError"
| "py_iter PNegInf = Inl TypeError"

text \<open>
  What a piece of the export loop does to the csv writer: the rows it has passed to
  \<^verbatim>\<open>writerow\<close>, in order, and the exception that ended it, if any. Rows written before
  an exception stay written.
\<close>

type_synonym emitted = "row list \<times> py_error option"

definition emit_row :: "py_error + row \<Rightarrow> emitted" where
  "emit_row r = (case r of Inl e \<Rightarrow> ([], Some e) | Inr x \<Rightarrow> ([x], None))"

fun seq_emit :: "emitted \<Rightarrow> emitted \<Rightarrow> emitted" where
  "seq_emit (rs, Some e) nxt = (rs, Some e)"
| "seq_emit (rs, None) (rs', e') = (rs @ rs', e')"

text \<open>An \<^verbatim>\<open>if\<close> statement without \<^verbatim>\<open>else\<close>; evaluating the condition may raise.\<close>

definition guard :: "py_error + bool \<Rightarrow> emitted \<Rightarrow> emitted" where
  "guard c body = (case c of Inl e \<Rightarrow> ([], Some e) | Inr b \<Rightarrow> if b then body else ([], None))"

text \<open>A \<^verbatim>\<open>for\<close> loop over a list of items: the bodies run in list order until one raises.\<close>

fun emit_all :: "('a \<Rightarrow> emitted) \<Rightarrow> 'a list \<Rightarrow> emitted" where
  "emit_all f [] = ([], None)"
| "emit_all f (x # xs) = seq_emit (f x) (emit_all f xs)"

definition for_in :: "py_error + pyval list \<Rightarrow> (pyval \<Rightarrow> emitted) \<Rightarrow> emitted" where
  "for_in items body = (case items of Inl e \<Rightarrow> ([], Some e) | Inr xs \<Rightarrow> emit_all body xs)"

section \<open>The collaborators outside the module\<close>

text \<open>
  A float64 value: a finite number, an infinity or \<^verbatim>\<open>nan\<close>. The two zeros are not told
  apart; they are equal under \<^verbatim>\<open>==\<close>, the only test the code makes.
\<close>

datatype float64 = Finite real | PosInf | NegInf | NaN

text \<open>
  The API client functions that \<^verbatim>\<open>export.py\<close> imports from the other modules of the
  package, and the library behaviours the model does not fix. The float64 arithmetic of
  numpy and pandas is one of them: the conversion of a number and of a string to float64
  (\<^verbatim>\<open>float\<close>), the product and the quotient of two floats, the sum of an array
  (\<^verbatim>\<open>ndarray.sum\<close>) and the sum of a series that skips \<^verbatim>\<open>nan\<close> (\<^verbatim>\<open>Series.sum\<close>), each with its
  own rounding, overflow and order of summation. The other is what the pandas
  \<^verbatim>\<open>DataFrame\<close> constructor makes of an object that is neither \<^verbatim>\<open>None\<close>, a scalar nor a
  list of dictionaries. Each is a parameter; a network call answers with a value or raises.
\<close>

record api =
  get_all_stock_orders :: "pyval \<Rightarrow> py_error + pyval list"
  get_all_crypto_orders :: "py_error + pyval list"
  get_all_option_orders :: "py_error + pyval list"
  get_symbol_by_url :: "pyval \<Rightarrow> py_error + pyval"
  get_crypto_quote_from_id :: "pyval \<Rightarrow> string \<Rightarrow> py_error + pyval"
  request_get :: "pyval \<Rightarrow> py_error + pyval"
  float_of_num :: "real \<Rightarrow> float64"
  float_of_str :: "string \<Rightarrow> py_error + float64"
  fl_mul :: "float64 \<Rightarrow> float64 \<Rightarrow> float64"
  fl_div :: "float64 \<Rightarrow> float64 \<Rightarrow> float64"
  fl_sum :: "float64 list \<Rightarrow> float64"
  fl_nansum :: "float64 list \<Rightarrow> float64"
  frame_of_other :: "pyval \<Rightarrow> py_error + (string \<times> pyval) list list"

section \<open>Stock orders (lines 74 to 101)\<close>

text \<open>The condition of line 76; \<^verbatim>\<open>and\<close> evaluates its right operand only when the left
  one holds.\<close>

definition cancelled_with_executions :: "pyval \<Rightarrow> py_error + bool" where
  "cancelled_with_executions order =
     pbind (subscript order ''state'') (\<lambda>s.
       if s = PStr ''cancelled''
       then pbind (subscript order ''executions'') (\<lambda>ex.
              pbind (py_len ex) (\<lambda>n. Inr (0 < n)))
       else Inr False)"

text \<open>The row of lines 79 to 87; the list elements are evaluated from left to right.\<close>

definition stock_partial_row :: "api \<Rightarrow> pyval \<Rightarrow> pyval \<Rightarrow> py_error + row" where
  "stock_partial_row a order partial =
     pbind (subscript order ''instrument'') (\<lambda>instrument.
     pbind (get_symbol_by_url a instrument) (\<lambda>symbol.
     pbind (subscript partial ''timestamp'') (\<lambda>timestamp.
     pbind (subscript order ''type'') (\<lambda>otype.
     pbind (subscript order ''side'') (\<lambda>side.
     pbind (subscript order ''fees'') (\<lambda>fees.
     pbind (subscript partial ''quantity'') (\<lambda>quantity.
     pbind (subscript partial ''price'') (\<lambda>price.
       Inr [symbol, timestamp, otype, side, fees, quantity, price]))))))))"

text \<open>The condition of line 90.\<close>

definition filled_not_cancelled :: "string \<Rightarrow> pyval \<Rightarrow> py_error + bool" where
  "filled_not_cancelled marker order =
     pbind (subscript order ''state'') (\<lambda>s.
       if s = PStr ''filled''
       then pbind (subscript order marker) (\<lambda>c. Inr (c = PNone))
       else Inr False)"

text \<open>The row of lines 92 to 100.\<close>

definition stock_filled_row :: "api \<Rightarrow> pyval \<Rightarrow> py_error + row" where
  "stock_filled_row a order =
     pbind (subscript order ''instrument'') (\<lambda>instrument.
     pbind (get_symbol_by_url a instrument) (\<lambda>symbol.
     pbind (subscript order ''last_transaction_at'') (\<lambda>timestamp.
     pbind (subscript order ''type'') (\<lambda>otype.
     pbind (subscript order ''side'') (\<lambda>side.
     pbind (subscript order ''fees'') (\<lambda>fees.
     pbind (subscript order ''quantity'') (\<lambda>quantity.
     pbind (subscript order ''average_price'') (\<lambda>price.
       Inr [symbol, timestamp, otype, side, fees, quantity, price]))))))))"

text \<open>The body of the loop of line 74: two \<^verbatim>\<open>if\<close> statements, one after the other.\<close>

definition stock_order_rows :: "api \<Rightarrow> pyval \<Rightarrow> emitted" where
  "stock_order_rows a order =
     seq_emit
       (guard (cancelled_with_executions order)
          (for_in (pbind (subscript order ''executions'') py_iter)
             (\<lambda>partial. emit_row (stock_partial_row a order partial))))
       (guard (filled_not_cancelled ''cancel'' order)
          (emit_row (stock_filled_row a order)))"

definition stock_rows :: "api \<Rightarrow> pyval list \<Rightarrow> emitted" where
  "stock_rows a all_orders = emit_all (stock_order_rows a) all_orders"

section \<open>Crypto orders (lines 131 to 147)\<close>

text \<open>Lines 133 to 136: only a \<^verbatim>\<open>KeyError\<close> is caught.\<close>

definition crypto_fees :: "pyval \<Rightarrow> py_error + pyval" where
  "crypto_fees order =
     (case subscript order ''fees'' of
        Inl (KeyError k) \<Rightarrow> Inr (PNum 0)
      | Inl e \<Rightarrow> Inl e
      | Inr v \<Rightarrow> Inr v)"

definition crypto_filled_row :: "api \<Rightarrow> pyval \<Rightarrow> py_error + row" where
  "crypto_filled_row a order =
     pbind (crypto_fees order) (\<lambda>fees.
     pbind (subscript order ''currency_pair_id'') (\<lambda>pair_id.
     pbind (get_crypto_quote_from_id a pair_id ''symbol'') (\<lambda>symbol.
     pbind (subscript order ''last_transaction_at'') (\<lambda>timestamp.
     pbind (subscript order ''type'') (\<lambda>otype.
     pbind (subscript order ''side'') (\<lambda>side.
     pbind (subscript order ''quantity'') (\<lambda>quantity.
     pbind (subscript order ''average_price'') (\<lambda>price.
       Inr [symbol, timestamp, otype, side, fees, quantity, price]))))))))"

definition crypto_order_rows :: "api \<Rightarrow> pyval \<Rightarrow> emitted" where
  "crypto_order_rows a order =
     guard (filled_not_cancelled ''cancel_url'' order)
       (emit_row (crypto_filled_row a order))"

definition crypto_rows :: "api \<Rightarrow> pyval list \<Rightarrow> emitted" where
  "crypto_rows a all_orders = emit_all (crypto_order_rows a) all_orders"

section \<open>Option orders (lines 184 to 214)\<close>

subsection \<open>The pandas and numpy calls of lines 190 to 194\<close>

text \<open>
  A data frame built from a list of dictionaries has one line per dictionary and a column
  for every key that occurs in one of them. It is kept as the list of its lines.
  \<^verbatim>\<open>DataFrame(None)\<close> is the empty frame; a string or a number is refused with a
  \<^verbatim>\<open>ValueError\<close>.
\<close>

fun is_dict :: "pyval \<Rightarrow> bool" where
  "is_dict (PDict kvs) = True"
| "is_dict PNone = False"
| "is_dict (PStr s) = False"
| "is_dict (PNum x) = False"
| "is_dict PNaN = False"
| "is_dict PInf = False"
| "is_dict PNegInf = False"
| "is_dict (PList xs) = False"

fun dict_items :: "pyval \<Rightarrow> (string \<times> pyval) list" where
  "dict_items (PDict kvs) = kvs"
| "dict_items PNone = []"
| "dict_items (PStr s) = []"
| "dict_items (PNum x) = []"
| "dict_items PNaN = []"
| "dict_items PInf = []"
| "dict_items PNegInf = []"
| "dict_items (PList xs) = []"

fun pd_DataFrame :: "api \<Rightarrow> pyval \<Rightarrow> py_error + (string \<times> pyval) list list" where
  "pd_DataFrame a PNone = Inr []"
| "pd_DataFrame a (PStr s) = Inl ValueError"
| "pd_DataFrame a (PNum x) = Inl ValueError"
| "pd_DataFrame a PNaN = Inl ValueError"
| "pd_DataFrame a PInf = Inl ValueError"
| "pd_DataFrame a PNegInf = Inl ValueError"
| "pd_DataFrame a (PList xs) =
     (if list_all is_dict xs then Inr (map dict_items xs) else frame_of_other a (PList xs))"
| "pd_DataFrame a (PDict kvs) = frame_of_other a (PDict kvs)"

text \<open>\<^verbatim>\<open>df[k]\<close>: the column, with \<^verbatim>\<open>nan\<close> in the lines that lack the key; a \<^verbatim>\<open>KeyError\<close> when
  no line has it (so also for the empty frame).\<close>

definition frame_column :: "(string \<times> pyval) list list \<Rightarrow> string \<Rightarrow> py_error + pyval list" where
  "frame_column df k =
     (if list_ex (\<lambda>r. map_of r k \<noteq> None) df
      then Inr (map (\<lambda>r. case map_of r k of None \<Rightarrow> PNaN | Some v \<Rightarrow> v) df)
      else Inl (KeyError k))"

text \<open>\<^verbatim>\<open>astype(float)\<close> on one cell: \<^verbatim>\<open>None\<close> becomes \<^verbatim>\<open>nan\<close>, a string is parsed by
  \<^verbatim>\<open>float\<close>, a list is refused with a \<^verbatim>\<open>ValueError\<close> and a dictionary with a \<^verbatim>\<open>TypeError\<close>.\<close>

fun astype_float :: "api \<Rightarrow> pyval \<Rightarrow> py_error + float64" where
  "astype_float a (PNum x) = Inr (float_of_num a x)"
| "astype_float a PNaN = Inr NaN"
| "astype_float a PInf = Inr PosInf"
| "astype_float a PNegInf = Inr NegInf"
| "astype_float a PNone = Inr NaN"
| "astype_float a (PStr s) = float_of_str a s"
| "astype_float a (PList xs) = Inl ValueError"
| "astype_float a (PDict kvs) = Inl TypeError"

text \<open>The conversion of a column stops at the first cell that cannot be converted.\<close>

fun astype_float_col :: "api \<Rightarrow> pyval list \<Rightarrow> py_error + float64 list" where
  "astype_float_col a [] = Inr []"
| "astype_float_col a (v # vs) =
     pbind (astype_float a v) (\<lambda>x.
     pbind (astype_float_col a vs) (\<lambda>xs. Inr (x # xs)))"

text \<open>
  \<^verbatim>\<open>np.average(a, weights=w)\<close>: the weights are summed first and a sum equal to zero
  raises \<^verbatim>\<open>ZeroDivisionError\<close>; otherwise the result is the sum of the products divided by
  the sum of the weights, all in float64.
\<close>

definition np_average :: "api \<Rightarrow> float64 list \<Rightarrow> float64 list \<Rightarrow> py_error + float64" where
  "np_average a xs ws =
     (let scl = fl_sum a ws in
      if scl = Finite 0 then Inl ZeroDivisionError
      else Inr (fl_div a (fl_sum a (map2 (fl_mul a) xs ws)) scl))"

text \<open>A float64 as a cell of a row.\<close>

fun py_of_float :: "float64 \<Rightarrow> pyval" where
  "py_of_float (Finite x) = PNum x"
| "py_of_float PosInf = PInf"
| "py_of_float NegInf = PNegInf"
| "py_of_float NaN = PNaN"

subsection \<open>Aggregation of a leg's executions and the row of a leg\<close>

text \<open>Lines 190 to 194: the total quantity (\<^verbatim>\<open>Series.sum\<close>, line 193) and the
  quantity-weighted average price (line 194).\<close>

definition option_leg_aggregate :: "api \<Rightarrow> pyval \<Rightarrow> py_error + (pyval \<times> pyval)" where
  "option_leg_aggregate a executions =
     pbind (pd_DataFrame a executions) (\<lambda>df.
     pbind (frame_column df ''price'') (\<lambda>price_col.
     pbind (astype_float_col a price_col) (\<lambda>price.
     pbind (frame_column df ''quantity'') (\<lambda>quantity_col.
     pbind (astype_float_col a quantity_col) (\<lambda>quantity.
     pbind (np_average a price quantity) (\<lambda>avg_price.
       Inr (py_of_float (fl_nansum a quantity), py_of_float avg_price)))))))"

text \<open>Lines 187 to 213 for one leg.\<close>

definition option_leg_row :: "api \<Rightarrow> pyval \<Rightarrow> pyval \<Rightarrow> py_error + row" where
  "option_leg_row a order leg =
     pbind (subscript leg ''option'') (\<lambda>url.
     pbind (request_get a url) (\<lambda>instrument_data.
     pbind (subscript leg ''executions'') (\<lambda>executions.
     pbind (option_leg_aggregate a executions) (\<lambda>agg.
     pbind (subscript order ''chain_symbol'') (\<lambda>chain_symbol.
     pbind (subscript instrument_data ''expiration_date'') (\<lambda>expiration_date.
     pbind (subscript instrument_data ''strike_price'') (\<lambda>strike_price.
     pbind (subscript instrument_data ''type'') (\<lambda>option_type.
     pbind (subscript instrument_data ''id'') (\<lambda>option_id.
     pbind (subscript leg ''side'') (\<lambda>side.
     pbind (subscript order ''created_at'') (\<lambda>created_at.
     pbind (subscript order ''direction'') (\<lambda>direction.
     pbind (subscript order ''type'') (\<lambda>otype.
     pbind (subscript order ''opening_strategy'') (\<lambda>opening_strategy.
     pbind (subscript order ''closing_strategy'') (\<lambda>closing_strategy.
     pbind (subscript order ''processed_quantity'') (\<lambda>processed_quantity.
     pbind (subscript order ''regulatory_fees'') (\<lambda>regulatory_fees.
       Inr [chain_symbol, expiration_date, strike_price, option_type, option_id, side,
            created_at, direction, fst agg, otype, opening_strategy, closing_strategy,
            snd agg, processed_quantity, regulatory_fees])))))))))))))))))"

definition option_order_rows :: "api \<Rightarrow> pyval \<Rightarrow> emitted" where
  "option_order_rows a order =
     guard (pbind (subscript order ''state'') (\<lambda>s. Inr (s = PStr ''filled'')))
       (for_in (pbind (subscript order ''legs'') py_iter)
          (\<lambda>leg. emit_row (option_leg_row a order leg)))"

definition option_rows :: "api \<Rightarrow> pyval list \<Rightarrow> emitted" where
  "option_rows a all_orders = emit_all (option_order_rows a) all_orders"

section \<open>Output paths (lines 12 to 46)\<close>

text \<open>
  A \<^verbatim>\<open>pathlib\<close> path on a POSIX system: its root (empty for a relative path, one slash,
  or two slashes when the text starts with exactly two) and its components. Parsing drops
  empty components and single dots. The file system of the model has no symbolic links,
  and \<^verbatim>\<open>resolve()\<close> is the non-strict one of Python 3.6 and later: it makes the path
  absolute against the working directory, folds the \<^verbatim>\<open>..\<close> components and gives an absolute
  path the single root, whether or not the path exists. A missing directory is no error
  for it; the one text it refuses is a component with a NUL byte, with a \<^verbatim>\<open>ValueError\<close>.
\<close>

record pure_path =
  anchor :: string
  parts :: "string list"

fun split_slash :: "string \<Rightarrow> string list" where
  "split_slash [] = [[]]"
| "split_slash (c # cs) =
     (if c = CHR ''/'' then [] # split_slash cs
      else (case split_slash cs of [] \<Rightarrow> [[c]] | w # ws \<Rightarrow> (c # w) # ws))"

definition path_root :: "string \<Rightarrow> string" where
  "path_root s =
     (if take 2 s = ''//'' \<and> take 3 s \<noteq> ''///'' then ''//''
      else if take 1 s = ''/'' then ''/''
      else [])"

definition Path :: "string \<Rightarrow> pure_path" where
  "Path s = \<lparr>anchor = path_root s,
             parts = filter (\<lambda>p. p \<noteq> [] \<and> p \<noteq> ''.'') (split_slash s)\<rparr>"

text \<open>\<^verbatim>\<open>str.rfind\<close> for one character.\<close>

fun rfind :: "char \<Rightarrow> string \<Rightarrow> nat option" where
  "rfind c [] = None"
| "rfind c (x # xs) =
     (case rfind c xs of
        Some i \<Rightarrow> Some (Suc i)
      | None \<Rightarrow> if x = c then Some 0 else None)"

text \<open>\<^verbatim>\<open>PurePath.name\<close> and \<^verbatim>\<open>PurePath.suffix\<close>: the suffix starts at the last dot of the
  name, unless that dot is the first or the last character.\<close>

definition path_name :: "pure_path \<Rightarrow> string" where
  "path_name p = (case parts p of [] \<Rightarrow> [] | _ # _ \<Rightarrow> last (parts p))"

definition name_suffix :: "string \<Rightarrow> string" where
  "name_suffix name =
     (case rfind (CHR ''.'') name of
        None \<Rightarrow> []
      | Some i \<Rightarrow> if 0 < i \<and> i < length name - 1 then drop i name else [])"

definition with_suffix :: "pure_path \<Rightarrow> string \<Rightarrow> py_error + pure_path" where
  "with_suffix p sfx =
     (if CHR ''/'' \<in> set sfx then Inl ValueError
      else if (sfx \<noteq> [] \<and> take 1 sfx \<noteq> ''.'') \<or> sfx = ''.'' then Inl ValueError
      else if path_name p = [] then Inl ValueError
      else let name = path_name p; old_suffix = name_suffix name;
               name' = (if old_suffix = [] then name @ sfx
                        else take (length name - length old_suffix) name @ sfx)
           in Inr (p\<lparr>parts := butlast (parts p) @ [name']\<rparr>))"

definition collapse :: "string list \<Rightarrow> string list" where
  "collapse ps = fold (\<lambda>p st. if p = ''..'' then butlast st else st @ [p]) ps []"

definition resolve :: "pure_path \<Rightarrow> pure_path \<Rightarrow> pure_path" where
  "resolve wd p =
     (if anchor p = [] then \<lparr>anchor = anchor wd, parts = collapse (parts wd @ parts p)\<rparr>
      else \<lparr>anchor = ''/'', parts = collapse (parts p)\<rparr>)"

text \<open>\<^verbatim>\<open>Path.resolve()\<close> as the code calls it: the \<^verbatim>\<open>ValueError\<close> of an embedded NUL byte, or
  the resolved path.\<close>

definition path_resolve :: "pure_path \<Rightarrow> pure_path \<Rightarrow> py_error + pure_path" where
  "path_resolve wd p =
     (if list_ex (\<lambda>c. CHR 0x00 \<in> set c) (parts p) then Inl ValueError
      else Inr (resolve wd p))"

text \<open>\<^verbatim>\<open>joinpath\<close>: an absolute second path replaces the first.\<close>

definition joinpath :: "pure_path \<Rightarrow> pure_path \<Rightarrow> pure_path" where
  "joinpath d f =
     (if anchor f \<noteq> [] then f else \<lparr>anchor = anchor d, parts = parts d @ parts f\<rparr>)"

text \<open>Lines 20 to 22; the first argument of the model is the working directory of the
  process.\<close>

definition fix_file_extension :: "pure_path \<Rightarrow> string \<Rightarrow> py_error + pure_path" where
  "fix_file_extension wd file_name =
     pbind (with_suffix (Path file_name) ''.csv'') (\<lambda>path. path_resolve wd path)"

text \<open>
  Lines 37 to 46. \<^verbatim>\<open>not file_name\<close> holds for \<^verbatim>\<open>None\<close> and for the empty string. The
  date-stamped name of lines 40 to 42 is overwritten by line 43 before any use, and
  formatting the date cannot fail, so it leaves no trace in the model.
\<close>

definition create_absolute_csv ::
  "pure_path \<Rightarrow> string \<Rightarrow> string option \<Rightarrow> string \<Rightarrow> py_error + pure_path" where
  "create_absolute_csv wd dir_path file_name order_type =
     pbind (path_resolve wd (Path dir_path)) (\<lambda>directory.
       case file_name of
         None \<Rightarrow> Inr (joinpath directory (Path (order_type @ ''_orders.csv'')))
       | Some n \<Rightarrow>
           if n = [] then Inr (joinpath directory (Path (order_type @ ''_orders.csv'')))
           else pbind (fix_file_extension wd n) (\<lambda>f. Inr (joinpath directory f)))"

text \<open>A path lies inside a directory when it continues the directory's components.\<close>

definition inside :: "pure_path \<Rightarrow> pure_path \<Rightarrow> bool" where
  "inside d p = (anchor p = anchor d \<and> take (length (parts d)) (parts p) = parts d)"

section \<open>The three export procedures\<close>

text \<open>
  The state the procedures act on: the login flag of the session, the working directory,
  what the operating system answers when a path is opened for writing, the contents of
  the files written (the rows handed to the csv writer, header first) and the sequence of
  the order-list fetches and file openings so far. The answer of the operating system is
  a parameter of the state: \<open>None\<close> when \<^verbatim>\<open>open(path, "w")\<close> succeeds, and otherwise the
  error it raises (\<^verbatim>\<open>FileNotFoundError\<close> for a missing directory, \<^verbatim>\<open>NotADirectoryError\<close> when
  a regular file stands in the path, \<^verbatim>\<open>IsADirectoryError\<close>, \<^verbatim>\<open>PermissionError\<close>, or another
  \<^verbatim>\<open>OSError\<close> with its number, as for a name that is too long). A successful opening
  creates or truncates the file.
\<close>

datatype event = Fetch string | OpenWrite pure_path

record world =
  logged_in :: bool
  cwd :: pure_path
  open_error :: "pure_path \<Rightarrow> py_error option"
  files :: "pure_path \<Rightarrow> row list option"
  events :: "event list"

definition parent :: "pure_path \<Rightarrow> pure_path" where
  "parent p = p\<lparr>parts := butlast (parts p)\<rparr>"

definition open_w :: "world \<Rightarrow> pure_path \<Rightarrow> py_error + world" where
  "open_w w p =
     (case open_error w p of
        Some e \<Rightarrow> Inl e
      | None \<Rightarrow> Inr (w\<lparr>files := (files w)(p \<mapsto> [])\<rparr>))"

text \<open>
  Modelled from the spec: the decorator \<^verbatim>\<open>login_required\<close> is defined in the helper
  module, which is not among the sources; the spec describes it as a process-wide
  authenticated-session guard on each export entry point. Without a session the call
  raises before the body runs.
\<close>

definition login_required ::
  "world \<Rightarrow> world \<times> (py_error + unit) \<Rightarrow> world \<times> (py_error + unit)" where
  "login_required w body = (if logged_in w then body else (w, Inl NotLoggedIn))"

text \<open>
  The \<^verbatim>\<open>with open(...)\<close> block: the opening is recorded, the header is written, then the
  rows of the loop. Leaving the block closes the file also when the loop raised, so the
  rows written before the exception are in the file.
\<close>

definition write_csv :: "world \<Rightarrow> pure_path \<Rightarrow> row \<Rightarrow> emitted \<Rightarrow> world \<times> (py_error + unit)" where
  "write_csv w file_path header em =
     (let w1 = w\<lparr>events := events w @ [OpenWrite file_path]\<rparr> in
      case open_w w1 file_path of
        Inl e \<Rightarrow> (w1, Inl e)
      | Inr w2 \<Rightarrow>
          (w2\<lparr>files := (files w2)(file_path \<mapsto> header # fst em)\<rparr>,
           case snd em of None \<Rightarrow> Inr () | Some e \<Rightarrow> Inl e))"

definition stock_header :: row where
  "stock_header = map PStr [''symbol'', ''date'', ''order_type'', ''side'', ''fees'',
                            ''quantity'', ''average_price'']"

definition option_header :: row where
  "option_header = map PStr [''chain_symbol'', ''expiration_date'', ''strike_price'',
     ''option_type'', ''option_id'', ''side'', ''order_created_at'', ''direction'',
     ''order_quantity'', ''order_type'', ''opening_strategy'', ''closing_strategy'',
     ''price'', ''processed_quantity'', ''fees'']"

text \<open>Lines 59 to 102.\<close>

definition export_completed_stock_orders ::
  "api \<Rightarrow> world \<Rightarrow> string \<Rightarrow> string option \<Rightarrow> pyval \<Rightarrow> world \<times> (py_error + unit)" where
  "export_completed_stock_orders a w dir_path file_name account_number =
     login_required w
       (case create_absolute_csv (cwd w) dir_path file_name ''stock'' of
          Inl e \<Rightarrow> (w, Inl e)
        | Inr file_path \<Rightarrow>
            (let w1 = w\<lparr>events := events w @ [Fetch ''stock'']\<rparr> in
             case get_all_stock_orders a account_number of
               Inl e \<Rightarrow> (w1, Inl e)
             | Inr all_orders \<Rightarrow> write_csv w1 file_path stock_header (stock_rows a all_orders)))"

text \<open>Lines 115 to 148.\<close>

definition export_completed_crypto_orders ::
  "api \<Rightarrow> world \<Rightarrow> string \<Rightarrow> string option \<Rightarrow> world \<times> (py_error + unit)" where
  "export_completed_crypto_orders a w dir_path file_name =
     login_required w
       (case create_absolute_csv (cwd w) dir_path file_name ''crypto'' of
          Inl e \<Rightarrow> (w, Inl e)
        | Inr file_path \<Rightarrow>
            (let w1 = w\<lparr>events := events w @ [Fetch ''crypto'']\<rparr> in
             case get_all_crypto_orders a of
               Inl e \<Rightarrow> (w1, Inl e)
             | Inr all_orders \<Rightarrow> write_csv w1 file_path stock_header (crypto_rows a all_orders)))"

text \<open>Lines 161 to 215.\<close>

definition export_completed_option_orders ::
  "api \<Rightarrow> world \<Rightarrow> string \<Rightarrow> string option \<Rightarrow> world \<times> (py_error + unit)" where
  "export_completed_option_orders a w dir_path file_name =
     login_required w
       (case create_absolute_csv (cwd w) dir_path file_name ''option'' of
          Inl e \<Rightarrow> (w, Inl e)
        | Inr file_path \<Rightarrow>
            (let w1 = w\<lparr>events := events w @ [Fetch ''option'']\<rparr> in
             case get_all_option_orders a of
               Inl e \<Rightarrow> (w1, Inl e)
             | Inr all_orders \<Rightarrow> write_csv w1 file_path option_header (option_rows a all_orders)))"

section \<open>A sample session\<close>

text \<open>
  The scenario of the spec's last testable property: one filled stock order (AAPL, 10
  shares at 150) and one cancelled order with two partial executions (3 at 100, 2 at 105),
  with a crypto order that has no fees field, an option order of two legs, and a file
  system in which only the working directory and its ancestors exist.
\<close>

definition demo_executions :: "pyval list" where
  "demo_executions =
     [PDict [(''timestamp'', PStr ''2021-03-01T14:30:00Z''), (''quantity'', PNum 3), (''price'', PNum 100)],
      PDict [(''timestamp'', PStr ''2021-03-01T14:31:00Z''), (''quantity'', PNum 2), (''price'', PNum 105)]]"

definition demo_filled_order :: pyval where
  "demo_filled_order = PDict
     [(''state'', PStr ''filled''), (''cancel'', PNone), (''instrument'', PStr ''url/aapl''),
      (''last_transaction_at'', PStr ''2021-02-01T15:00:00Z''), (''type'', PStr ''market''),
      (''side'', PStr ''buy''), (''fees'', PStr ''0.00''), (''quantity'', PNum 10),
      (''average_price'', PNum 150), (''executions'', PList [])]"

definition demo_cancelled_order :: pyval where
  "demo_cancelled_order = PDict
     [(''state'', PStr ''cancelled''), (''cancel'', PNone), (''instrument'', PStr ''url/aapl''),
      (''last_transaction_at'', PStr ''2021-03-01T14:31:00Z''), (''type'', PStr ''limit''),
      (''side'', PStr ''sell''), (''fees'', PStr ''0.02''), (''quantity'', PNum 8),
      (''average_price'', PNum 102), (''executions'', PList demo_executions)]"

definition demo_marked_order :: pyval where
  "demo_marked_order = PDict
     [(''state'', PStr ''filled''), (''cancel'', PStr ''url/cancel''), (''instrument'', PStr ''url/aapl''),
      (''last_transaction_at'', PStr ''2021-02-01T15:00:00Z''), (''type'', PStr ''market''),
      (''side'', PStr ''buy''), (''fees'', PStr ''0.00''), (''quantity'', PNum 10),
      (''average_price'', PNum 150), (''executions'', PList demo_executions)]"

definition demo_queued_order :: pyval where
  "demo_queued_order = PDict
     [(''state'', PStr ''queued''), (''cancel'', PStr ''url/cancel''), (''cancel_url'', PStr ''url/cancel''),
      (''executions'', PList []), (''legs'', PList [])]"

definition demo_crypto_order :: pyval where
  "demo_crypto_order = PDict
     [(''state'', PStr ''filled''), (''cancel_url'', PNone), (''currency_pair_id'', PStr ''btc-usd''),
      (''last_transaction_at'', PStr ''2021-04-01T10:00:00Z''), (''type'', PStr ''market''),
      (''side'', PStr ''buy''), (''quantity'', PNum 2), (''average_price'', PNum 50000)]"

definition demo_crypto_fee_order :: pyval where
  "demo_crypto_fee_order = PDict
     [(''state'', PStr ''filled''), (''cancel_url'', PNone), (''currency_pair_id'', PStr ''eth-usd''),
      (''last_transaction_at'', PStr ''2021-04-02T11:00:00Z''), (''type'', PStr ''limit''),
      (''side'', PStr ''sell''), (''fees'', PStr ''0.10''), (''quantity'', PNum 5),
      (''average_price'', PNum 2000)]"

definition demo_legs :: "pyval list" where
  "demo_legs =
     [PDict [(''option'', PStr ''url/opt1''), (''side'', PStr ''buy''),
             (''executions'', PList [PDict [(''price'', PNum 10), (''quantity'', PNum 2)],
                                     PDict [(''price'', PNum 20), (''quantity'', PNum 2)]])],
      PDict [(''option'', PStr ''url/opt2''), (''side'', PStr ''sell''),
             (''executions'', PList [PDict [(''price'', PNum 4), (''quantity'', PNum 1)]])]]"

definition demo_option_order :: pyval where
  "demo_option_order = PDict
     [(''state'', PStr ''filled''), (''legs'', PList demo_legs), (''chain_symbol'', PStr ''AAPL''),
      (''created_at'', PStr ''2021-05-01T09:30:00Z''), (''direction'', PStr ''debit''),
      (''type'', PStr ''limit''), (''opening_strategy'', PStr ''long_call_spread''),
      (''closing_strategy'', PNone), (''processed_quantity'', PNum 2),
      (''regulatory_fees'', PStr ''0.01'')]"

text \<open>
  The arithmetic of the sample: exact on finite values, \<^verbatim>\<open>nan\<close> otherwise. It agrees with
  float64 wherever the operands and the exact result are float64 values, as all the small
  integers of the sample are; it stands for float64 on the sample only.
\<close>

fun exact_mul :: "float64 \<Rightarrow> float64 \<Rightarrow> float64" where
  "exact_mul (Finite x) (Finite y) = Finite (x * y)"
| "exact_mul x y = NaN"

fun exact_div :: "float64 \<Rightarrow> float64 \<Rightarrow> float64" where
  "exact_div (Finite x) (Finite y) = (if y = 0 then NaN else Finite (x / y))"
| "exact_div x y = NaN"

fun exact_add :: "float64 \<Rightarrow> float64 \<Rightarrow> float64" where
  "exact_add (Finite x) (Finite y) = Finite (x + y)"
| "exact_add x y = NaN"

definition exact_sum :: "float64 list \<Rightarrow> float64" where
  "exact_sum xs = foldl exact_add (Finite 0) xs"

definition demo_api :: api where
  "demo_api = \<lparr>
     get_all_stock_orders = (\<lambda>account. Inr [demo_filled_order, demo_cancelled_order]),
     get_all_crypto_orders = Inr [demo_crypto_order],
     get_all_option_orders = Inr [demo_option_order],
     get_symbol_by_url = (\<lambda>url. if url = PStr ''url/aapl'' then Inr (PStr ''AAPL'') else Inl (ApiError ''404'')),
     get_crypto_quote_from_id = (\<lambda>pair field.
        if pair = PStr ''btc-usd'' then Inr (PStr ''BTCUSD'') else Inr (PStr ''ETHUSD'')),
     request_get = (\<lambda>url. Inr (PDict [(''expiration_date'', PStr ''2021-06-18''),
                                       (''strike_price'', PNum 130), (''type'', PStr ''call''),
                                       (''id'', url)])),
     float_of_num = Finite,
     float_of_str = (\<lambda>s. Inl ValueError),
     fl_mul = exact_mul,
     fl_div = exact_div,
     fl_sum = exact_sum,
     fl_nansum = (\<lambda>xs. exact_sum (filter (\<lambda>x. x \<noteq> NaN) xs)),
     frame_of_other = (\<lambda>v. Inl ValueError)\<rparr>"

definition demo_home :: pure_path where
  "demo_home = \<lparr>anchor = ''/'', parts = [''home'', ''user'']\<rparr>"

definition demo_is_dir :: "pure_path \<Rightarrow> bool" where
  "demo_is_dir p =
     (anchor p = ''/'' \<and>
      (parts p = [] \<or> parts p = [''home''] \<or> parts p = [''home'', ''user'']))"

definition demo_open_error :: "pure_path \<Rightarrow> py_error option" where
  "demo_open_error p =
     (if \<not> demo_is_dir (parent p) then Some FileNotFoundError
      else if demo_is_dir p then Some IsADirectoryError
      else None)"

definition demo_world :: world where
  "demo_world = \<lparr>
     logged_in = True,
     cwd = demo_home,
     open_error = demo_open_error,
     files = Map.empty,
     events = []\<rparr>"

section \<open>Basic facts about the combinators\<close>

lemma pbind_simps [simp]: "pbind (Inr x) f = f x" "pbind (Inl e) f = Inl e"
  by (simp_all add: pbind_def)

lemma guard_simps [simp]:
  "guard (Inr True) body = body"
  "guard (Inr False) body = ([], None)"
  "guard (Inl e) body = ([], Some e)"
  by (simp_all add: guard_def)

lemma emit_row_simps [simp]:
  "emit_row (Inr r) = ([r], None)"
  "emit_row (Inl e) = ([], Some e)"
  by (simp_all add: emit_row_def)

lemma seq_emit_nil [simp]: "seq_emit ([], None) em = em"
  by (cases em) simp

lemma seq_emit_nil_right [simp]: "seq_emit em ([], None) = em"
  by (cases em; cases "snd em"; auto)

lemma fst_guard_not_taken: "c \<noteq> Inr True \<Longrightarrow> fst (guard c body) = []"
  by (cases c) (auto simp: guard_def)

lemma fst_seq_emit_nil: "fst x = [] \<Longrightarrow> fst y = [] \<Longrightarrow> fst (seq_emit x y) = []"
  by (cases x; cases y; cases "snd x"; auto)

lemma emit_all_rows:
  "\<forall>x\<in>set xs. f x = ([g x], None) \<Longrightarrow> emit_all f xs = (map g xs, None)"
  by (induction xs) auto

lemma emit_all_prefix: "prefix (fst (emit_all f xs)) (concat (map (\<lambda>x. fst (f x)) xs))"
proof (induction xs)
  case Nil
  show ?case by simp
next
  case (Cons x xs)
  obtain rs e where fx: "f x = (rs, e)" by (cases "f x")
  obtain rs' e' where rest: "emit_all f xs = (rs', e')" by (cases "emit_all f xs")
  show ?case using Cons fx rest by (cases e) auto
qed

lemma emit_all_complete:
  "snd (emit_all f xs) = None \<Longrightarrow> fst (emit_all f xs) = concat (map (\<lambda>x. fst (f x)) xs)"
proof (induction xs)
  case Nil
  show ?case by simp
next
  case (Cons x xs)
  obtain rs e where fx: "f x = (rs, e)" by (cases "f x")
  obtain rs' e' where rest: "emit_all f xs = (rs', e')" by (cases "emit_all f xs")
  show ?case using Cons fx rest by (cases e) auto
qed

text \<open>When each of the two conditions holds.\<close>

lemma cancelled_with_executions_True:
  "cancelled_with_executions order = Inr True \<longleftrightarrow>
     subscript order ''state'' = Inr (PStr ''cancelled'') \<and>
     (\<exists>ex n. subscript order ''executions'' = Inr ex \<and> py_len ex = Inr n \<and> 0 < n)"
  by (auto simp: cancelled_with_executions_def pbind_def split: sum.splits if_splits)

lemma filled_not_cancelled_True:
  "filled_not_cancelled m order = Inr True \<longleftrightarrow>
     subscript order ''state'' = Inr (PStr ''filled'') \<and> subscript order m = Inr PNone"
  by (auto simp: filled_not_cancelled_def pbind_def split: sum.splits if_splits)

section \<open>The weighted average of a leg (C1, C6)\<close>

lemma map2_map_same: "map2 f (map g xs) (map h xs) = map (\<lambda>x. f (g x) (h x)) xs"
  by (induction xs) auto

lemma astype_float_col_map:
  "\<forall>r\<in>set rs. astype_float a (g r) = Inr (h r) \<Longrightarrow>
     astype_float_col a (map g rs) = Inr (map h rs)"
  by (induction rs) auto

lemma frame_of_dicts: "pd_DataFrame a (PList (map PDict recs)) = Inr recs"
proof -
  have "list_all is_dict (map PDict recs)" by (induction recs) auto
  moreover have "map dict_items (map PDict recs) = recs" by (induction recs) auto
  ultimately show ?thesis by simp
qed

lemma frame_column_present:
  assumes "recs \<noteq> []"
    and "\<forall>r\<in>set recs. \<exists>v. map_of r k = Some v \<and> astype_float a v = Inr (h r)"
  shows "\<exists>col. frame_column recs k = Inr col \<and> astype_float_col a col = Inr (map h recs)"
proof -
  let ?cell = "\<lambda>r. case map_of r k of None \<Rightarrow> PNaN | Some v \<Rightarrow> v"
  have ex: "list_ex (\<lambda>r. map_of r k \<noteq> None) recs"
    using assms by (cases recs) (auto simp: list_ex_iff)
  have cells: "\<forall>r\<in>set recs. astype_float a (?cell r) = Inr (h r)"
    using assms(2) by auto
  have "frame_column recs k = Inr (map ?cell recs)"
    using ex by (simp add: frame_column_def)
  moreover have "astype_float_col a (map ?cell recs) = Inr (map h recs)"
    using cells by (rule astype_float_col_map)
  ultimately show ?thesis by blast
qed

text \<open>The aggregation of a list of dictionaries that all have a price and a quantity
  convertible to float64 is \<^verbatim>\<open>np.average\<close> of the two converted columns.\<close>

lemma option_leg_aggregate_columns:
  assumes "recs \<noteq> []"
    and "\<forall>r\<in>set recs. \<exists>v. map_of r ''price'' = Some v \<and> astype_float a v = Inr (p r)"
    and "\<forall>r\<in>set recs. \<exists>v. map_of r ''quantity'' = Some v \<and> astype_float a v = Inr (q r)"
  shows "option_leg_aggregate a (PList (map PDict recs)) =
           pbind (np_average a (map p recs) (map q recs)) (\<lambda>avg_price.
             Inr (py_of_float (fl_nansum a (map q recs)), py_of_float avg_price))"
proof -
  obtain pc where pc: "frame_column recs ''price'' = Inr pc"
      "astype_float_col a pc = Inr (map p recs)"
    using frame_column_present[OF assms(1,2)] by blast
  obtain qc where qc: "frame_column recs ''quantity'' = Inr qc"
      "astype_float_col a qc = Inr (map q recs)"
    using frame_column_present[OF assms(1,3)] by blast
  show ?thesis
    by (simp add: option_leg_aggregate_def frame_of_dicts pc qc del: pd_DataFrame.simps)
qed

text \<open>
  Claim C1. For every non-empty list of executions the aggregation returns the sum of the
  quantities and the quantity-weighted mean of the prices. As stated this fails on the
  code: \<^verbatim>\<open>np.average\<close> raises \<^verbatim>\<open>ZeroDivisionError\<close> when the quantities sum to zero, which
  a non-empty list can do. The statement that holds, for a non-empty list of executions
  that each carry a price \<open>p\<close> and a quantity \<open>q\<close> convertible to float64, is in float64
  arithmetic, with its rounding and overflow. When the float64 sum of the quantities is
  not zero, the result is the total quantity, the \<^verbatim>\<open>Series.sum\<close> of the quantities, and the
  average, the float64 quotient of the float64 sum of the float64 products \<open>p * q\<close> by the
  float64 sum of the quantities. When that sum is zero, \<^verbatim>\<open>ZeroDivisionError\<close> is raised.
\<close>

theorem option_leg_aggregate_weighted_average:
  assumes "recs \<noteq> []"
    and "\<forall>r\<in>set recs. \<exists>v. map_of r ''price'' = Some v \<and> astype_float a v = Inr (p r)"
    and "\<forall>r\<in>set recs. \<exists>v. map_of r ''quantity'' = Some v \<and> astype_float a v = Inr (q r)"
  shows "(fl_sum a (map q recs) \<noteq> Finite 0 \<longrightarrow>
            option_leg_aggregate a (PList (map PDict recs)) =
              Inr (py_of_float (fl_nansum a (map q recs)),
                   py_of_float (fl_div a (fl_sum a (map (\<lambda>r. fl_mul a (p r) (q r)) recs))
                                         (fl_sum a (map q recs))))) \<and>
         (fl_sum a (map q recs) = Finite 0 \<longrightarrow>
            option_leg_aggregate a (PList (map PDict recs)) = Inl ZeroDivisionError)"
proof (intro conjI impI)
  assume nz: "fl_sum a (map q recs) \<noteq> Finite 0"
  have "np_average a (map p recs) (map q recs) =
      Inr (fl_div a (fl_sum a (map (\<lambda>r. fl_mul a (p r) (q r)) recs)) (fl_sum a (map q recs)))"
    using nz by (simp add: np_average_def map2_map_same Let_def)
  then show "option_leg_aggregate a (PList (map PDict recs)) =
      Inr (py_of_float (fl_nansum a (map q recs)),
           py_of_float (fl_div a (fl_sum a (map (\<lambda>r. fl_mul a (p r) (q r)) recs))
                                 (fl_sum a (map q recs))))"
    by (simp add: option_leg_aggregate_columns[OF assms])
next
  assume z: "fl_sum a (map q recs) = Finite 0"
  have "np_average a (map p recs) (map q recs) = Inl ZeroDivisionError"
    using z by (simp add: np_average_def Let_def)
  then show "option_leg_aggregate a (PList (map PDict recs)) = Inl ZeroDivisionError"
    by (simp add: option_leg_aggregate_columns[OF assms])
qed

text \<open>The example of the spec, where every float64 operation is exact: two executions of
  quantity 2 at prices 10 and 20 give the total quantity 4 and the average price 15.
  Quantities 1 and -1 sum to zero and raise.\<close>

theorem option_leg_aggregate_weighted_average_witness:
  "option_leg_aggregate demo_api
     (PList [PDict [(''price'', PNum 10), (''quantity'', PNum 2)],
             PDict [(''price'', PNum 20), (''quantity'', PNum 2)]]) = Inr (PNum 4, PNum 15) \<and>
   option_leg_aggregate demo_api
     (PList [PDict [(''price'', PNum 10), (''quantity'', PNum 1)],
             PDict [(''price'', PNum 20), (''quantity'', PNum (-1))]]) = Inl ZeroDivisionError"
  using option_leg_aggregate_weighted_average
    [where a = demo_api
       and recs = "[[(''price'', PNum 10), (''quantity'', PNum 2)],
                    [(''price'', PNum 20), (''quantity'', PNum 2)]]"
       and p = "\<lambda>r. case map_of r ''price'' of Some (PNum x) \<Rightarrow> Finite x | _ \<Rightarrow> NaN"
       and q = "\<lambda>r. case map_of r ''quantity'' of Some (PNum x) \<Rightarrow> Finite x | _ \<Rightarrow> NaN"]
    option_leg_aggregate_weighted_average
    [where a = demo_api
       and recs = "[[(''price'', PNum 10), (''quantity'', PNum 1)],
                    [(''price'', PNum 20), (''quantity'', PNum (-1))]]"
       and p = "\<lambda>r. case map_of r ''price'' of Some (PNum x) \<Rightarrow> Finite x | _ \<Rightarrow> NaN"
       and q = "\<lambda>r. case map_of r ''quantity'' of Some (PNum x) \<Rightarrow> Finite x | _ \<Rightarrow> NaN"]
  by (simp add: demo_api_def exact_sum_def)

text \<open>A single execution of quantity zero: the list is not empty, and the aggregation
  raises instead of returning an average.\<close>

theorem option_leg_aggregate_zero_quantity_counterexample:
  "option_leg_aggregate demo_api (PList [PDict [(''price'', PNum 10), (''quantity'', PNum 0)]])
     = Inl ZeroDivisionError"
  by (simp add: option_leg_aggregate_def frame_column_def np_average_def demo_api_def
      exact_sum_def)

text \<open>
  Read in exact arithmetic, the result is the weighted mean of the numbers themselves:
  the float64 result differs from \<open>(\<Sum> p * q) / (\<Sum> q)\<close> by the rounding and the overflow of
  the float64 operations, and by nothing else.
\<close>

lemma foldl_exact_add: "foldl exact_add (Finite s) (map Finite xs) = Finite (s + sum_list xs)"
  by (induction xs arbitrary: s) (auto simp: algebra_simps)

lemma exact_sum_finite: "exact_sum (map Finite xs) = Finite (sum_list xs)"
  by (simp add: exact_sum_def foldl_exact_add)

theorem exact_arithmetic_gives_weighted_mean:
  assumes "recs \<noteq> []"
    and "\<forall>r\<in>set recs. \<exists>v. map_of r ''price'' = Some v \<and> astype_float a v = Inr (Finite (p r))"
    and "\<forall>r\<in>set recs. \<exists>v. map_of r ''quantity'' = Some v \<and> astype_float a v = Inr (Finite (q r))"
    and "fl_mul a = exact_mul" and "fl_div a = exact_div" and "fl_sum a = exact_sum"
    and "fl_nansum a = (\<lambda>xs. exact_sum (filter (\<lambda>x. x \<noteq> NaN) xs))"
    and "sum_list (map q recs) \<noteq> 0"
  shows "option_leg_aggregate a (PList (map PDict recs)) =
     Inr (PNum (sum_list (map q recs)),
          PNum (sum_list (map (\<lambda>r. p r * q r) recs) / sum_list (map q recs)))"
proof -
  have s1: "exact_sum (map (\<lambda>r. Finite (q r)) recs) = Finite (sum_list (map q recs))"
    using exact_sum_finite[of "map q recs"] by (simp add: comp_def)
  have s2: "exact_sum (map2 exact_mul (map (\<lambda>r. Finite (p r)) recs)
                                      (map (\<lambda>r. Finite (q r)) recs)) =
              Finite (sum_list (map (\<lambda>r. p r * q r) recs))"
    using exact_sum_finite[of "map (\<lambda>r. p r * q r) recs"]
    by (simp add: map2_map_same comp_def)
  have keep: "filter (\<lambda>x. x \<noteq> NaN) (map (\<lambda>r. Finite (q r)) recs) =
                map (\<lambda>r. Finite (q r)) recs"
    by (induction recs) auto
  have avg: "np_average a (map (\<lambda>r. Finite (p r)) recs) (map (\<lambda>r. Finite (q r)) recs) =
      Inr (Finite (sum_list (map (\<lambda>r. p r * q r) recs) / sum_list (map q recs)))"
    using assms(8) by (simp add: np_average_def assms(4,5,6) s1 s2 Let_def)
  have tot: "fl_nansum a (map (\<lambda>r. Finite (q r)) recs) = Finite (sum_list (map q recs))"
    by (simp add: assms(7) keep s1)
  show ?thesis
    by (simp add: option_leg_aggregate_columns[OF assms(1,2,3)] avg tot)
qed

theorem exact_arithmetic_gives_weighted_mean_witness:
  "option_leg_aggregate demo_api
     (PList [PDict [(''price'', PNum 100), (''quantity'', PNum 3)],
             PDict [(''price'', PNum 105), (''quantity'', PNum 2)]]) = Inr (PNum 5, PNum 102)"
  using exact_arithmetic_gives_weighted_mean
    [where a = demo_api
       and recs = "[[(''price'', PNum 100), (''quantity'', PNum 3)],
                    [(''price'', PNum 105), (''quantity'', PNum 2)]]"
       and p = "\<lambda>r. case map_of r ''price'' of Some (PNum x) \<Rightarrow> x | _ \<Rightarrow> 0"
       and q = "\<lambda>r. case map_of r ''quantity'' of Some (PNum x) \<Rightarrow> x | _ \<Rightarrow> 0"]
  by (simp add: demo_api_def)

text \<open>
  Claim C6. On an empty list of executions the aggregation raises an explicit error that
  identifies the empty case. The code has no such guard: the frame built from an empty
  list has no columns, so the access to the price column raises \<^verbatim>\<open>KeyError\<close> before any
  arithmetic. What holds is that the aggregation of an empty list raises the
  \<^verbatim>\<open>KeyError\<close> of the missing price column, and so returns no value, \<^verbatim>\<open>nan\<close> or other.
\<close>

theorem option_leg_aggregate_empty:
  "option_leg_aggregate a (PList []) = Inl (KeyError ''price'')"
  by (simp add: option_leg_aggregate_def frame_column_def)

theorem option_leg_aggregate_empty_witness:
  "option_leg_aggregate demo_api (PList []) = Inl (KeyError ''price'')"
  by (rule option_leg_aggregate_empty)

text \<open>The error of the empty list is the one a non-empty list without prices gets: it does
  not tell the empty case apart.\<close>

theorem option_leg_aggregate_empty_counterexample:
  "option_leg_aggregate demo_api (PList []) =
     option_leg_aggregate demo_api (PList [PDict [(''quantity'', PNum 2)]]) \<and>
   option_leg_aggregate demo_api (PList []) \<noteq> Inl ZeroDivisionError"
  by (simp add: option_leg_aggregate_def frame_column_def)

section \<open>Which orders produce rows (C2, C3, C4, C8, C9)\<close>

text \<open>
  Claim C2. In the stock and the crypto export, an order with state \<^verbatim>\<open>filled\<close> and a
  \<^verbatim>\<open>None\<close> cancellation marker (\<^verbatim>\<open>cancel\<close> for stock, \<^verbatim>\<open>cancel_url\<close> for crypto) emits
  exactly one row: the symbol looked up for the order, then the order's own last
  transaction time, type, side, fees, quantity and average price, in this order, and
  the loop body raises nothing.
\<close>

theorem filled_order_emits_one_row:
  "(subscript order ''state'' = Inr (PStr ''filled'') \<and>
    subscript order ''cancel'' = Inr PNone \<and>
    subscript order ''instrument'' = Inr instrument \<and>
    get_symbol_by_url a instrument = Inr symbol \<and>
    subscript order ''last_transaction_at'' = Inr ts \<and>
    subscript order ''type'' = Inr ty \<and>
    subscript order ''side'' = Inr side \<and>
    subscript order ''fees'' = Inr fees \<and>
    subscript order ''quantity'' = Inr q \<and>
    subscript order ''average_price'' = Inr p
    \<longrightarrow> stock_order_rows a order = ([[symbol, ts, ty, side, fees, q, p]], None)) \<and>
   (subscript order ''state'' = Inr (PStr ''filled'') \<and>
    subscript order ''cancel_url'' = Inr PNone \<and>
    subscript order ''currency_pair_id'' = Inr pair_id \<and>
    get_crypto_quote_from_id a pair_id ''symbol'' = Inr symbol \<and>
    subscript order ''last_transaction_at'' = Inr ts \<and>
    subscript order ''type'' = Inr ty \<and>
    subscript order ''side'' = Inr side \<and>
    subscript order ''fees'' = Inr fees \<and>
    subscript order ''quantity'' = Inr q \<and>
    subscript order ''average_price'' = Inr p
    \<longrightarrow> crypto_order_rows a order = ([[symbol, ts, ty, side, fees, q, p]], None))"
  by (simp add: stock_order_rows_def cancelled_with_executions_def filled_not_cancelled_def
      stock_filled_row_def crypto_order_rows_def crypto_filled_row_def crypto_fees_def)

theorem filled_order_emits_one_row_witness:
  "stock_order_rows demo_api demo_filled_order =
     ([[PStr ''AAPL'', PStr ''2021-02-01T15:00:00Z'', PStr ''market'', PStr ''buy'',
        PStr ''0.00'', PNum 10, PNum 150]], None) \<and>
   crypto_order_rows demo_api demo_crypto_fee_order =
     ([[PStr ''ETHUSD'', PStr ''2021-04-02T11:00:00Z'', PStr ''limit'', PStr ''sell'',
        PStr ''0.10'', PNum 5, PNum 2000]], None)"
  using filled_order_emits_one_row
    [where a = demo_api and order = demo_filled_order and instrument = "PStr ''url/aapl''"
       and symbol = "PStr ''AAPL''" and ts = "PStr ''2021-02-01T15:00:00Z''"
       and ty = "PStr ''market''" and side = "PStr ''buy''" and fees = "PStr ''0.00''"
       and q = "PNum 10" and p = "PNum 150"]
    filled_order_emits_one_row
    [where a = demo_api and order = demo_crypto_fee_order and pair_id = "PStr ''eth-usd''"
       and symbol = "PStr ''ETHUSD''" and ts = "PStr ''2021-04-02T11:00:00Z''"
       and ty = "PStr ''limit''" and side = "PStr ''sell''" and fees = "PStr ''0.10''"
       and q = "PNum 5" and p = "PNum 2000"]
  by (simp add: demo_api_def demo_filled_order_def demo_crypto_fee_order_def)

text \<open>
  Claim C3. In the stock export, an order with state \<^verbatim>\<open>cancelled\<close> and one or more
  executions emits as many rows as it has executions, one per execution and in their
  order: each row has the execution's own timestamp, quantity and price with the order's
  symbol, type, side and fees.
\<close>

theorem cancelled_stock_order_emits_row_per_execution:
  assumes "subscript order ''state'' = Inr (PStr ''cancelled'')"
      and "subscript order ''executions'' = Inr (PList exs)"
      and "exs \<noteq> []"
      and "subscript order ''instrument'' = Inr instrument"
      and "get_symbol_by_url a instrument = Inr symbol"
      and "subscript order ''type'' = Inr ty"
      and "subscript order ''side'' = Inr side"
      and "subscript order ''fees'' = Inr fees"
      and "\<forall>e\<in>set exs. subscript e ''timestamp'' = Inr (ts e) \<and>
             subscript e ''quantity'' = Inr (q e) \<and> subscript e ''price'' = Inr (p e)"
  shows "stock_order_rows a order =
           (map (\<lambda>e. [symbol, ts e, ty, side, fees, q e, p e]) exs, None) \<and>
         length (fst (stock_order_rows a order)) = length exs"
proof -
  have cond: "cancelled_with_executions order = Inr True"
    using assms(1,2,3) by (simp add: cancelled_with_executions_def)
  have notfilled: "filled_not_cancelled ''cancel'' order = Inr False"
    using assms(1) by (simp add: filled_not_cancelled_def)
  have each: "\<forall>e\<in>set exs. emit_row (stock_partial_row a order e) =
                ([[symbol, ts e, ty, side, fees, q e, p e]], None)"
    using assms(4-9) by (simp add: stock_partial_row_def)
  have "stock_order_rows a order =
          emit_all (\<lambda>partial. emit_row (stock_partial_row a order partial)) exs"
    using cond notfilled assms(2) by (simp add: stock_order_rows_def for_in_def)
  also have "\<dots> = (map (\<lambda>e. [symbol, ts e, ty, side, fees, q e, p e]) exs, None)"
    using each by (rule emit_all_rows)
  finally show ?thesis by simp
qed

theorem cancelled_stock_order_emits_row_per_execution_witness:
  "stock_order_rows demo_api demo_cancelled_order =
     ([[PStr ''AAPL'', PStr ''2021-03-01T14:30:00Z'', PStr ''limit'', PStr ''sell'',
        PStr ''0.02'', PNum 3, PNum 100],
       [PStr ''AAPL'', PStr ''2021-03-01T14:31:00Z'', PStr ''limit'', PStr ''sell'',
        PStr ''0.02'', PNum 2, PNum 105]], None) \<and>
   length (fst (stock_order_rows demo_api demo_cancelled_order)) = 2"
  using cancelled_stock_order_emits_row_per_execution
    [where a = demo_api and order = demo_cancelled_order and exs = demo_executions
       and instrument = "PStr ''url/aapl''" and symbol = "PStr ''AAPL''"
       and ty = "PStr ''limit''" and side = "PStr ''sell''" and fees = "PStr ''0.02''"
       and ts = "\<lambda>e. case subscript e ''timestamp'' of Inr v \<Rightarrow> v | Inl err \<Rightarrow> PNone"
       and q = "\<lambda>e. case subscript e ''quantity'' of Inr v \<Rightarrow> v | Inl err \<Rightarrow> PNone"
       and p = "\<lambda>e. case subscript e ''price'' of Inr v \<Rightarrow> v | Inl err \<Rightarrow> PNone"]
  by (simp add: demo_api_def demo_cancelled_order_def demo_executions_def)

text \<open>
  Claim C4. An order whose state is neither \<^verbatim>\<open>filled\<close> nor, for stock only, \<^verbatim>\<open>cancelled\<close>
  with at least one execution, emits no row, in each of the three exports. The crypto
  export emits a row only when the state is \<^verbatim>\<open>filled\<close> and \<^verbatim>\<open>cancel_url\<close> is \<^verbatim>\<open>None\<close>, so a
  cancelled crypto order emits nothing, whatever executions it has.
\<close>

theorem other_states_emit_nothing:
  "(subscript order ''state'' \<noteq> Inr (PStr ''filled'') \<and>
    \<not> (subscript order ''state'' = Inr (PStr ''cancelled'') \<and>
       (\<exists>ex n. subscript order ''executions'' = Inr ex \<and> py_len ex = Inr n \<and> 0 < n))
    \<longrightarrow> fst (stock_order_rows a order) = []) \<and>
   (subscript order ''state'' \<noteq> Inr (PStr ''filled'')
    \<longrightarrow> fst (crypto_order_rows a order) = []) \<and>
   (fst (crypto_order_rows a order) \<noteq> []
    \<longrightarrow> subscript order ''state'' = Inr (PStr ''filled'') \<and>
        subscript order ''cancel_url'' = Inr PNone) \<and>
   (subscript order ''state'' \<noteq> Inr (PStr ''filled'')
    \<longrightarrow> fst (option_order_rows a order) = [])"
proof (intro conjI impI)
  assume h: "subscript order ''state'' \<noteq> Inr (PStr ''filled'') \<and>
    \<not> (subscript order ''state'' = Inr (PStr ''cancelled'') \<and>
       (\<exists>ex n. subscript order ''executions'' = Inr ex \<and> py_len ex = Inr n \<and> 0 < n))"
  have 1: "cancelled_with_executions order \<noteq> Inr True"
    using h by (simp add: cancelled_with_executions_True)
  have 2: "filled_not_cancelled ''cancel'' order \<noteq> Inr True"
    using h by (simp add: filled_not_cancelled_True)
  show "fst (stock_order_rows a order) = []"
    unfolding stock_order_rows_def by (intro fst_seq_emit_nil fst_guard_not_taken 1 2)
next
  assume h: "subscript order ''state'' \<noteq> Inr (PStr ''filled'')"
  have "filled_not_cancelled ''cancel_url'' order \<noteq> Inr True"
    using h by (simp add: filled_not_cancelled_True)
  then show "fst (crypto_order_rows a order) = []"
    unfolding crypto_order_rows_def by (rule fst_guard_not_taken)
next
  assume h: "fst (crypto_order_rows a order) \<noteq> []"
  have "filled_not_cancelled ''cancel_url'' order = Inr True"
    using h fst_guard_not_taken unfolding crypto_order_rows_def by blast
  then show "subscript order ''state'' = Inr (PStr ''filled'')"
    and "subscript order ''cancel_url'' = Inr PNone"
    by (simp_all add: filled_not_cancelled_True)
next
  assume h: "subscript order ''state'' \<noteq> Inr (PStr ''filled'')"
  have "pbind (subscript order ''state'') (\<lambda>s. Inr (s = PStr ''filled'')) \<noteq> Inr True"
    using h by (auto simp: pbind_def split: sum.splits)
  then show "fst (option_order_rows a order) = []"
    unfolding option_order_rows_def by (rule fst_guard_not_taken)
qed

text \<open>A queued order emits nothing in any export; the cancelled order with two executions
  emits nothing in the crypto export; the filled crypto order, which does emit a row, has
  no cancel marker.\<close>

theorem other_states_emit_nothing_witness:
  "fst (stock_order_rows demo_api demo_queued_order) = [] \<and>
   fst (option_order_rows demo_api demo_queued_order) = [] \<and>
   fst (crypto_order_rows demo_api demo_cancelled_order) = [] \<and>
   fst (crypto_order_rows demo_api demo_crypto_order) \<noteq> [] \<and>
   subscript demo_crypto_order ''cancel_url'' = Inr PNone"
  using other_states_emit_nothing [where a = demo_api and order = demo_queued_order]
    other_states_emit_nothing [where a = demo_api and order = demo_cancelled_order]
    other_states_emit_nothing [where a = demo_api and order = demo_crypto_order]
  by (simp add: demo_queued_order_def demo_cancelled_order_def demo_crypto_order_def
      demo_api_def crypto_order_rows_def filled_not_cancelled_def crypto_filled_row_def
      crypto_fees_def)

text \<open>
  Claim C8. In the crypto export, a filled order whose record has no \<^verbatim>\<open>fees\<close> field still
  emits its row, with \<open>0.0\<close> in the fees column; the missing field raises nothing.
\<close>

theorem crypto_missing_fees_defaults_to_zero:
  assumes "map_of kvs ''fees'' = None"
      and "subscript (PDict kvs) ''state'' = Inr (PStr ''filled'')"
      and "subscript (PDict kvs) ''cancel_url'' = Inr PNone"
      and "subscript (PDict kvs) ''currency_pair_id'' = Inr pair_id"
      and "get_crypto_quote_from_id a pair_id ''symbol'' = Inr symbol"
      and "subscript (PDict kvs) ''last_transaction_at'' = Inr ts"
      and "subscript (PDict kvs) ''type'' = Inr ty"
      and "subscript (PDict kvs) ''side'' = Inr side"
      and "subscript (PDict kvs) ''quantity'' = Inr q"
      and "subscript (PDict kvs) ''average_price'' = Inr p"
  shows "crypto_order_rows a (PDict kvs) = ([[symbol, ts, ty, side, PNum 0, q, p]], None)"
proof -
  have fees: "crypto_fees (PDict kvs) = Inr (PNum 0)"
    using assms(1) by (simp add: crypto_fees_def)
  have cond: "filled_not_cancelled ''cancel_url'' (PDict kvs) = Inr True"
    using assms(2,3) by (simp add: filled_not_cancelled_True)
  have "crypto_filled_row a (PDict kvs) = Inr [symbol, ts, ty, side, PNum 0, q, p]"
    unfolding crypto_filled_row_def using fees assms(4-10) by simp
  then show ?thesis
    using cond by (simp add: crypto_order_rows_def)
qed

theorem crypto_missing_fees_defaults_to_zero_witness:
  "map_of (dict_items demo_crypto_order) ''fees'' = None \<and>
   crypto_order_rows demo_api demo_crypto_order =
     ([[PStr ''BTCUSD'', PStr ''2021-04-01T10:00:00Z'', PStr ''market'', PStr ''buy'',
        PNum 0, PNum 2, PNum 50000]], None)"
  using crypto_missing_fees_defaults_to_zero
    [where a = demo_api and kvs = "dict_items demo_crypto_order"
       and pair_id = "PStr ''btc-usd''" and symbol = "PStr ''BTCUSD''"
       and ts = "PStr ''2021-04-01T10:00:00Z''" and ty = "PStr ''market''"
       and side = "PStr ''buy''" and q = "PNum 2" and p = "PNum 50000"]
  by (simp add: demo_crypto_order_def demo_api_def)

text \<open>
  Claim C9. In the stock export, an order with state \<^verbatim>\<open>filled\<close> whose \<^verbatim>\<open>cancel\<close> marker is
  not \<^verbatim>\<open>None\<close> emits no row: the first branch asks for the state \<^verbatim>\<open>cancelled\<close>, the second
  for a \<^verbatim>\<open>None\<close> marker.
\<close>

theorem stock_filled_with_cancel_marker_emits_nothing:
  assumes "subscript order ''state'' = Inr (PStr ''filled'')"
      and "subscript order ''cancel'' = Inr c"
      and "c \<noteq> PNone"
  shows "stock_order_rows a order = ([], None)"
  using assms
  by (simp add: stock_order_rows_def cancelled_with_executions_def filled_not_cancelled_def)

theorem stock_filled_with_cancel_marker_emits_nothing_witness:
  "subscript demo_marked_order ''cancel'' = Inr (PStr ''url/cancel'') \<and>
   stock_order_rows demo_api demo_marked_order = ([], None)"
  using stock_filled_with_cancel_marker_emits_nothing
    [where a = demo_api and order = demo_marked_order and c = "PStr ''url/cancel''"]
  by (simp add: demo_marked_order_def)

section \<open>The rows of the sample session\<close>

lemma demo_filled_order_rows:
  "stock_order_rows demo_api demo_filled_order =
     ([[PStr ''AAPL'', PStr ''2021-02-01T15:00:00Z'', PStr ''market'', PStr ''buy'',
        PStr ''0.00'', PNum 10, PNum 150]], None)"
  by (simp add: stock_order_rows_def cancelled_with_executions_def filled_not_cancelled_def
      stock_filled_row_def demo_api_def demo_filled_order_def)

lemma demo_cancelled_order_rows:
  "stock_order_rows demo_api demo_cancelled_order =
     ([[PStr ''AAPL'', PStr ''2021-03-01T14:30:00Z'', PStr ''limit'', PStr ''sell'',
        PStr ''0.02'', PNum 3, PNum 100],
       [PStr ''AAPL'', PStr ''2021-03-01T14:31:00Z'', PStr ''limit'', PStr ''sell'',
        PStr ''0.02'', PNum 2, PNum 105]], None)"
  by (simp add: stock_order_rows_def cancelled_with_executions_def filled_not_cancelled_def
      stock_partial_row_def for_in_def demo_api_def demo_cancelled_order_def
      demo_executions_def)

lemma demo_cancelled_order_fields:
  "subscript demo_cancelled_order ''state'' = Inr (PStr ''cancelled'')"
  "subscript demo_cancelled_order ''executions'' = Inr (PList demo_executions)"
  by (simp_all add: demo_cancelled_order_def)

lemma demo_option_order_rows:
  "option_order_rows demo_api demo_option_order =
     ([[PStr ''AAPL'', PStr ''2021-06-18'', PNum 130, PStr ''call'', PStr ''url/opt1'',
        PStr ''buy'', PStr ''2021-05-01T09:30:00Z'', PStr ''debit'', PNum 4, PStr ''limit'',
        PStr ''long_call_spread'', PNone, PNum 15, PNum 2, PStr ''0.01''],
       [PStr ''AAPL'', PStr ''2021-06-18'', PNum 130, PStr ''call'', PStr ''url/opt2'',
        PStr ''sell'', PStr ''2021-05-01T09:30:00Z'', PStr ''debit'', PNum 1, PStr ''limit'',
        PStr ''long_call_spread'', PNone, PNum 4, PNum 2, PStr ''0.01'']], None)"
  by (simp add: option_order_rows_def option_leg_row_def option_leg_aggregate_def
      frame_column_def np_average_def exact_sum_def for_in_def demo_api_def
      demo_option_order_def demo_legs_def)

lemma demo_option_order_fields:
  "subscript demo_option_order ''state'' = Inr (PStr ''filled'')"
  "subscript demo_option_order ''legs'' = Inr (PList demo_legs)"
  by (simp_all add: demo_option_order_def)

section \<open>The order of the rows (C10)\<close>

text \<open>
  Claim C10. The rows of an export are a function of the fetched order list and the
  lookup results (each export loop is a function of the model), and they keep the order of
  their sources: the rows written are the rows of the first order, then those of the
  second, and so on, cut off where an exception ends the loop and complete when none
  does. Within a cancelled stock order the rows follow the list of executions, and within
  a filled option order the list of legs, in the same sense.
\<close>

theorem rows_follow_source_order:
  "prefix (fst (stock_rows a orders))
          (concat (map (\<lambda>order. fst (stock_order_rows a order)) orders)) \<and>
   (snd (stock_rows a orders) = None \<longrightarrow>
      fst (stock_rows a orders) = concat (map (\<lambda>order. fst (stock_order_rows a order)) orders)) \<and>
   prefix (fst (crypto_rows a orders))
          (concat (map (\<lambda>order. fst (crypto_order_rows a order)) orders)) \<and>
   (snd (crypto_rows a orders) = None \<longrightarrow>
      fst (crypto_rows a orders) = concat (map (\<lambda>order. fst (crypto_order_rows a order)) orders)) \<and>
   prefix (fst (option_rows a orders))
          (concat (map (\<lambda>order. fst (option_order_rows a order)) orders)) \<and>
   (snd (option_rows a orders) = None \<longrightarrow>
      fst (option_rows a orders) = concat (map (\<lambda>order. fst (option_order_rows a order)) orders)) \<and>
   (subscript order ''state'' = Inr (PStr ''cancelled'') \<and>
    subscript order ''executions'' = Inr (PList exs) \<longrightarrow>
      prefix (fst (stock_order_rows a order))
             (concat (map (\<lambda>partial. fst (emit_row (stock_partial_row a order partial))) exs)) \<and>
      (snd (stock_order_rows a order) = None \<longrightarrow>
         fst (stock_order_rows a order) =
           concat (map (\<lambda>partial. fst (emit_row (stock_partial_row a order partial))) exs))) \<and>
   (subscript order ''state'' = Inr (PStr ''filled'') \<and>
    subscript order ''legs'' = Inr (PList legs) \<longrightarrow>
      prefix (fst (option_order_rows a order))
             (concat (map (\<lambda>leg. fst (emit_row (option_leg_row a order leg))) legs)) \<and>
      (snd (option_order_rows a order) = None \<longrightarrow>
         fst (option_order_rows a order) =
           concat (map (\<lambda>leg. fst (emit_row (option_leg_row a order leg))) legs)))"
proof -
  have stock: "stock_order_rows a order =
      emit_all (\<lambda>partial. emit_row (stock_partial_row a order partial)) exs"
    if "subscript order ''state'' = Inr (PStr ''cancelled'')"
      and "subscript order ''executions'' = Inr (PList exs)"
    using that
    by (cases exs) (simp_all add: stock_order_rows_def cancelled_with_executions_def
        filled_not_cancelled_def for_in_def)
  have opt: "option_order_rows a order =
      emit_all (\<lambda>leg. emit_row (option_leg_row a order leg)) legs"
    if "subscript order ''state'' = Inr (PStr ''filled'')"
      and "subscript order ''legs'' = Inr (PList legs)"
    using that by (simp add: option_order_rows_def for_in_def)
  show ?thesis
    unfolding stock_rows_def crypto_rows_def option_rows_def
    by (intro conjI impI emit_all_prefix emit_all_complete)
       (auto simp: stock opt emit_all_prefix emit_all_complete)
qed

text \<open>The sample session: the filled order's row comes first, then the rows of the
  cancelled order, which are those of its executions in their order; the rows of the
  option order are those of its two legs, first leg first.\<close>

theorem rows_follow_source_order_witness:
  "snd (stock_rows demo_api [demo_filled_order, demo_cancelled_order]) = None \<and>
   fst (stock_rows demo_api [demo_filled_order, demo_cancelled_order]) =
     fst (stock_order_rows demo_api demo_filled_order) @
     fst (stock_order_rows demo_api demo_cancelled_order) \<and>
   fst (stock_order_rows demo_api demo_cancelled_order) =
     concat (map (\<lambda>partial. fst (emit_row (stock_partial_row demo_api demo_cancelled_order partial)))
               demo_executions) \<and>
   fst (option_order_rows demo_api demo_option_order) =
     concat (map (\<lambda>leg. fst (emit_row (option_leg_row demo_api demo_option_order leg)))
               demo_legs)"
proof -
  note stock = rows_follow_source_order
    [where a = demo_api and orders = "[demo_filled_order, demo_cancelled_order]"
       and order = demo_cancelled_order and exs = demo_executions and legs = "[]"]
  note opt = rows_follow_source_order
    [where a = demo_api and orders = "[demo_option_order]"
       and order = demo_option_order and exs = "[]" and legs = demo_legs]
  have ok: "snd (stock_rows demo_api [demo_filled_order, demo_cancelled_order]) = None"
    by (simp add: stock_rows_def demo_filled_order_rows demo_cancelled_order_rows)
  have ok_cancelled: "snd (stock_order_rows demo_api demo_cancelled_order) = None"
    by (simp add: demo_cancelled_order_rows)
  have ok_option: "snd (option_order_rows demo_api demo_option_order) = None"
    by (simp add: demo_option_order_rows)
  from stock ok
  have "fst (stock_rows demo_api [demo_filled_order, demo_cancelled_order]) =
      concat (map (\<lambda>order. fst (stock_order_rows demo_api order))
                [demo_filled_order, demo_cancelled_order])"
    by blast
  moreover from stock ok_cancelled demo_cancelled_order_fields
  have "fst (stock_order_rows demo_api demo_cancelled_order) =
     concat (map (\<lambda>partial. fst (emit_row (stock_partial_row demo_api demo_cancelled_order partial)))
               demo_executions)"
    by blast
  moreover from opt ok_option demo_option_order_fields
  have "fst (option_order_rows demo_api demo_option_order) =
     concat (map (\<lambda>leg. fst (emit_row (option_leg_row demo_api demo_option_order leg)))
               demo_legs)"
    by blast
  ultimately show ?thesis using ok by simp
qed

section \<open>Paths and the output file that cannot be opened (C5, C7)\<close>

lemma default_name:
  "Path ''stock_orders.csv'' = \<lparr>anchor = [], parts = [''stock_orders.csv'']\<rparr>"
  "Path ''crypto_orders.csv'' = \<lparr>anchor = [], parts = [''crypto_orders.csv'']\<rparr>"
  "Path ''option_orders.csv'' = \<lparr>anchor = [], parts = [''option_orders.csv'']\<rparr>"
  by (simp_all add: Path_def path_root_def)

lemma split_slash_chars: "c \<in> set (split_slash s) \<Longrightarrow> set c \<subseteq> set s"
proof (induction s arbitrary: c)
  case Nil
  then show ?case by simp
next
  case (Cons x xs)
  show ?case
  proof (cases "x = CHR ''/''")
    case True
    then show ?thesis using Cons by auto
  next
    case False
    obtain w ws where sp: "split_slash xs = w # ws"
      by (cases xs; cases "split_slash xs") (auto split: if_splits list.splits)
    have "set w \<subseteq> set xs" "\<forall>d\<in>set ws. set d \<subseteq> set xs"
      using Cons.IH sp by auto
    then show ?thesis using Cons.prems False sp by auto
  qed
qed

lemma path_resolve_no_nul:
  assumes "CHR 0x00 \<notin> set s"
  shows "path_resolve wd (Path s) = Inr (resolve wd (Path s))"
proof -
  have "\<not> list_ex (\<lambda>c. CHR 0x00 \<in> set c) (parts (Path s))"
    using assms split_slash_chars[of _ s] by (auto simp: Path_def list_ex_iff)
  then show ?thesis by (simp add: path_resolve_def)
qed

lemma create_absolute_csv_default:
  "file_name = None \<or> file_name = Some [] \<Longrightarrow> CHR 0x00 \<notin> set dir_path \<Longrightarrow>
   create_absolute_csv wd dir_path file_name order_type =
     Inr (joinpath (resolve wd (Path dir_path)) (Path (order_type @ ''_orders.csv'')))"
  by (auto simp: create_absolute_csv_def path_resolve_no_nul)

lemma split_slash_no_slash: "CHR ''/'' \<notin> set s \<Longrightarrow> split_slash s = [s]"
  by (induction s) auto

lemma path_root_no_slash: "CHR ''/'' \<notin> set s \<Longrightarrow> path_root s = []"
  by (cases s) (auto simp: path_root_def)

lemma Path_plain_name:
  "CHR ''/'' \<notin> set s \<Longrightarrow> s \<noteq> [] \<Longrightarrow> s \<noteq> ''.'' \<Longrightarrow>
     Path s = \<lparr>anchor = [], parts = [s]\<rparr>"
  by (simp add: Path_def split_slash_no_slash path_root_no_slash)

lemma collapse_snoc: "n \<noteq> ''..'' \<Longrightarrow> collapse (ps @ [n]) = collapse ps @ [n]"
  by (simp add: collapse_def)

lemma path_name_last: "path_name p = (if parts p = [] then [] else last (parts p))"
  by (cases "parts p") (simp_all add: path_name_def)

lemma with_suffix_csv:
  assumes "with_suffix p ''.csv'' = Inr p'"
  shows "\<exists>stem. parts p' = butlast (parts p) @ [stem @ ''.csv''] \<and> anchor p' = anchor p"
  using assms by (auto simp: with_suffix_def Let_def split: if_splits)

lemma fix_file_extension_Inr:
  assumes "fix_file_extension wd n = Inr fp"
  shows "\<exists>p'. with_suffix (Path n) ''.csv'' = Inr p' \<and> fp = resolve wd p'"
  using assms
  by (auto simp: fix_file_extension_def path_resolve_def pbind_def split: sum.splits if_splits)

text \<open>
  Without a file name, and with no NUL byte in the directory, the path is the resolved
  directory followed by the default name of the category, a path inside the directory.
\<close>

theorem create_absolute_csv_default_inside:
  assumes "file_name = None \<or> file_name = Some []"
      and "CHR 0x00 \<notin> set dir_path"
      and "CHR ''/'' \<notin> set order_type"
  shows "create_absolute_csv wd dir_path file_name order_type =
           Inr \<lparr>anchor = anchor (resolve wd (Path dir_path)),
                parts = parts (resolve wd (Path dir_path)) @ [order_type @ ''_orders.csv'']\<rparr> \<and>
         inside (resolve wd (Path dir_path))
           \<lparr>anchor = anchor (resolve wd (Path dir_path)),
            parts = parts (resolve wd (Path dir_path)) @ [order_type @ ''_orders.csv'']\<rparr>"
proof -
  have "Path (order_type @ ''_orders.csv'') =
          \<lparr>anchor = [], parts = [order_type @ ''_orders.csv'']\<rparr>"
    using assms(3) by (intro Path_plain_name) auto
  then show ?thesis
    using create_absolute_csv_default[OF assms(1,2)]
    by (simp add: joinpath_def inside_def)
qed

theorem create_absolute_csv_default_inside_witness:
  "create_absolute_csv demo_home ''out/../exports'' None ''option'' =
     Inr \<lparr>anchor = ''/'', parts = [''home'', ''user'', ''exports'', ''option_orders.csv'']\<rparr>"
  using create_absolute_csv_default_inside
    [where wd = demo_home and dir_path = "''out/../exports''" and file_name = None
       and order_type = "''option''"]
  by (simp add: demo_home_def Path_def path_root_def resolve_def collapse_def)

text \<open>
  With a file name, the name of the returned path ends in \<^verbatim>\<open>.csv\<close>, whatever suffix the
  given name had.
\<close>

theorem fix_file_extension_ends_in_csv:
  assumes "fix_file_extension wd n = Inr fp"
  shows "\<exists>stem. path_name fp = stem @ ''.csv''"
proof -
  obtain p' where p': "with_suffix (Path n) ''.csv'' = Inr p'" and fp: "fp = resolve wd p'"
    using fix_file_extension_Inr[OF assms] by blast
  obtain stem where st: "parts p' = butlast (parts (Path n)) @ [stem @ ''.csv'']"
    using with_suffix_csv[OF p'] by blast
  have ne: "stem @ ''.csv'' \<noteq> ''..''"
    by (cases stem rule: rev_cases) auto
  have "\<exists>ps. parts fp = ps @ [stem @ ''.csv'']"
    unfolding fp resolve_def using st ne
    by (auto simp: collapse_snoc simp flip: append_assoc)
  then show ?thesis
    by (auto simp: path_name_last)
qed

theorem fix_file_extension_ends_in_csv_witness:
  "fix_file_extension demo_home ''reports/q1.tar.gz'' =
     Inr \<lparr>anchor = ''/'', parts = [''home'', ''user'', ''reports'', ''q1.tar.csv'']\<rparr> \<and>
   (\<exists>stem. path_name \<lparr>anchor = ''/'', parts = [''home'', ''user'', ''reports'', ''q1.tar.csv'']\<rparr>
              = stem @ ''.csv'')"
proof -
  have ev: "fix_file_extension demo_home ''reports/q1.tar.gz'' =
     Inr \<lparr>anchor = ''/'', parts = [''home'', ''user'', ''reports'', ''q1.tar.csv'']\<rparr>"
    by (simp add: fix_file_extension_def with_suffix_def Path_def path_root_def path_name_def
        name_suffix_def path_resolve_def resolve_def collapse_def demo_home_def Let_def)
  from fix_file_extension_ends_in_csv[OF ev] ev show ?thesis by simp
qed

text \<open>
  With a file name and an absolute working directory, the returned path is the file name
  resolved against the working directory: the directory argument, when it has no NUL byte,
  has no part in it.
\<close>

theorem create_absolute_csv_ignores_directory:
  assumes "anchor wd \<noteq> []" and "n \<noteq> []" and "CHR 0x00 \<notin> set dir_path"
  shows "create_absolute_csv wd dir_path (Some n) order_type = fix_file_extension wd n"
proof (cases "fix_file_extension wd n")
  case (Inl e)
  then show ?thesis
    using assms(2,3) by (simp add: create_absolute_csv_def path_resolve_no_nul)
next
  case (Inr fp)
  obtain p' where "fp = resolve wd p'"
    using fix_file_extension_Inr[OF Inr] by blast
  then have "anchor fp \<noteq> []"
    using assms(1) by (simp add: resolve_def)
  then show ?thesis
    using assms(2,3) Inr
    by (simp add: create_absolute_csv_def path_resolve_no_nul joinpath_def)
qed

theorem create_absolute_csv_ignores_directory_witness:
  "create_absolute_csv demo_home ''/tmp/out'' (Some ''report.txt'') ''stock'' =
     create_absolute_csv demo_home ''/var/exports'' (Some ''report.txt'') ''crypto''"
  using create_absolute_csv_ignores_directory
      [where wd = demo_home and n = "''report.txt''" and dir_path = "''/tmp/out''"
         and order_type = "''stock''"]
    create_absolute_csv_ignores_directory
      [where wd = demo_home and n = "''report.txt''" and dir_path = "''/var/exports''"
         and order_type = "''crypto''"]
  by (simp add: demo_home_def)

text \<open>
  Claim C5. \<^verbatim>\<open>create_absolute_csv\<close> returns the resolved directory joined with a file name
  that ends in \<^verbatim>\<open>.csv\<close>, so that the path lies inside the directory. With a file name
  given the code does not: \<^verbatim>\<open>fix_file_extension\<close> resolves the name against the working
  directory, and joining an absolute path to the directory drops the directory. In the
  working directory \<^verbatim>\<open>/home/user\<close>, the directory \<^verbatim>\<open>/tmp/out\<close> and the name
  \<^verbatim>\<open>report.txt\<close> give \<^verbatim>\<open>/home/user/report.csv\<close>.
\<close>

theorem create_absolute_csv_leaves_directory:
  "create_absolute_csv demo_home ''/tmp/out'' (Some ''report.txt'') ''stock'' =
     Inr \<lparr>anchor = ''/'', parts = [''home'', ''user'', ''report.csv'']\<rparr> \<and>
   resolve demo_home (Path ''/tmp/out'') = \<lparr>anchor = ''/'', parts = [''tmp'', ''out'']\<rparr> \<and>
   \<not> inside (resolve demo_home (Path ''/tmp/out''))
            \<lparr>anchor = ''/'', parts = [''home'', ''user'', ''report.csv'']\<rparr>"
  by (simp add: create_absolute_csv_def fix_file_extension_def with_suffix_def Path_def
      path_root_def path_name_def name_suffix_def path_resolve_def resolve_def collapse_def
      joinpath_def demo_home_def inside_def pbind_def Let_def)

lemma write_csv_open_fails:
  assumes "open_error w p = Some e"
  shows "write_csv w p header em = (w\<lparr>events := events w @ [OpenWrite p]\<rparr>, Inl e)"
  using assms by (simp add: write_csv_def open_w_def Let_def)

text \<open>
  Claim C7. For a directory that does not exist, a file system error reaches the caller
  before any fetch of the order list. The code does it the other way round: building the
  path raises nothing for a missing directory, the order list is fetched, and only the
  opening of the output file raises. What holds, in a session that is logged in: whenever
  \<^verbatim>\<open>create_absolute_csv\<close> returns a path, the fetch answers and the operating system refuses
  to open that path for writing, with whatever error (\<^verbatim>\<open>FileNotFoundError\<close> for a missing
  directory), the call ends in that error after the fetch and the attempt to open the
  file, and no file is written.
\<close>

theorem open_failure_follows_fetch:
  assumes "logged_in w"
      and "open_error w file_path = Some e"
  shows "(create_absolute_csv (cwd w) dir_path file_name ''stock'' = Inr file_path \<and>
          get_all_stock_orders a account = Inr orders \<longrightarrow>
            export_completed_stock_orders a w dir_path file_name account =
              (w\<lparr>events := events w @ [Fetch ''stock'', OpenWrite file_path]\<rparr>, Inl e)) \<and>
         (create_absolute_csv (cwd w) dir_path file_name ''crypto'' = Inr file_path \<and>
          get_all_crypto_orders a = Inr orders \<longrightarrow>
            export_completed_crypto_orders a w dir_path file_name =
              (w\<lparr>events := events w @ [Fetch ''crypto'', OpenWrite file_path]\<rparr>, Inl e)) \<and>
         (create_absolute_csv (cwd w) dir_path file_name ''option'' = Inr file_path \<and>
          get_all_option_orders a = Inr orders \<longrightarrow>
            export_completed_option_orders a w dir_path file_name =
              (w\<lparr>events := events w @ [Fetch ''option'', OpenWrite file_path]\<rparr>, Inl e))"
proof -
  have refused: "\<And>ev. open_error (w\<lparr>events := ev\<rparr>) file_path = Some e"
    using assms(2) by simp
  show ?thesis
    using assms(1)
    by (simp add: export_completed_stock_orders_def export_completed_crypto_orders_def
        export_completed_option_orders_def login_required_def
        write_csv_open_fails[OF refused] Let_def)
qed

lemma demo_missing_directory:
  "create_absolute_csv (cwd demo_world) ''/no/such'' None ''crypto'' =
     Inr \<lparr>anchor = ''/'', parts = [''no'', ''such'', ''crypto_orders.csv'']\<rparr>"
  "open_error demo_world \<lparr>anchor = ''/'', parts = [''no'', ''such'', ''crypto_orders.csv'']\<rparr> =
     Some FileNotFoundError"
  "logged_in demo_world"
  "get_all_crypto_orders demo_api = Inr [demo_crypto_order]"
  by (simp_all add: create_absolute_csv_def path_resolve_def default_name Path_def
      path_root_def resolve_def collapse_def joinpath_def demo_home_def demo_world_def
      demo_open_error_def demo_is_dir_def parent_def demo_api_def)

text \<open>The sample session: the directory \<^verbatim>\<open>/no/such\<close> does not exist, the path is built all
  the same, and the crypto export ends in \<^verbatim>\<open>FileNotFoundError\<close> after the fetch.\<close>

theorem open_failure_follows_fetch_witness:
  "create_absolute_csv (cwd demo_world) ''/no/such'' None ''crypto'' =
     Inr \<lparr>anchor = ''/'', parts = [''no'', ''such'', ''crypto_orders.csv'']\<rparr> \<and>
   open_error demo_world \<lparr>anchor = ''/'', parts = [''no'', ''such'', ''crypto_orders.csv'']\<rparr> =
     Some FileNotFoundError \<and>
   export_completed_crypto_orders demo_api demo_world ''/no/such'' None =
     (demo_world\<lparr>events :=
        events demo_world @
        [Fetch ''crypto'',
         OpenWrite \<lparr>anchor = ''/'', parts = [''no'', ''such'', ''crypto_orders.csv'']\<rparr>]\<rparr>,
      Inl FileNotFoundError)"
  using open_failure_follows_fetch
    [where a = demo_api and w = demo_world and dir_path = "''/no/such''"
       and file_name = None and orders = "[demo_crypto_order]" and e = FileNotFoundError
       and file_path = "\<lparr>anchor = ''/'', parts = [''no'', ''such'', ''crypto_orders.csv'']\<rparr>"]
    demo_missing_directory
  by blast

text \<open>In the sample session the directory \<^verbatim>\<open>/no/such\<close> does not exist; building the path
  raises nothing, and when the stock export ends in the file system error the order list
  has been fetched.\<close>

theorem missing_directory_fetches_first_counterexample:
  "create_absolute_csv (cwd demo_world) ''/no/such'' None ''stock'' =
     Inr \<lparr>anchor = ''/'', parts = [''no'', ''such'', ''stock_orders.csv'']\<rparr> \<and>
   snd (export_completed_stock_orders demo_api demo_world ''/no/such'' None PNone) =
     Inl FileNotFoundError \<and>
   Fetch ''stock'' \<in>
     set (events (fst (export_completed_stock_orders demo_api demo_world ''/no/such'' None PNone)))"
  by (simp add: export_completed_stock_orders_def login_required_def create_absolute_csv_def
      path_resolve_def write_csv_def open_w_def parent_def demo_world_def demo_open_error_def
      demo_is_dir_def demo_api_def demo_home_def Path_def path_root_def resolve_def
      collapse_def joinpath_def Let_def)

text \<open>
  A directory text with a NUL byte is the one input that is refused before the fetch:
  \<^verbatim>\<open>resolve()\<close> raises \<^verbatim>\<open>ValueError\<close> on line 38, and the export ends there.
\<close>

lemma split_slash_covers:
  "x \<in> set s \<Longrightarrow> x \<noteq> CHR ''/'' \<Longrightarrow> \<exists>c\<in>set (split_slash s). x \<in> set c"
proof (induction s)
  case Nil
  then show ?case by simp
next
  case (Cons y ys)
  obtain w ws where sp: "split_slash ys = w # ws"
    by (cases ys; cases "split_slash ys") (auto split: if_splits list.splits)
  show ?case
  proof (cases "x = y")
    case True
    then show ?thesis using Cons.prems sp by auto
  next
    case False
    then have "\<exists>c\<in>set (split_slash ys). x \<in> set c"
      using Cons by auto
    then show ?thesis using sp by (cases "y = CHR ''/''") auto
  qed
qed

lemma path_resolve_nul:
  assumes "CHR 0x00 \<in> set s"
  shows "path_resolve wd (Path s) = Inl ValueError"
proof -
  obtain c where c: "c \<in> set (split_slash s)" "CHR 0x00 \<in> set c"
    using split_slash_covers[OF assms] by auto
  then have "c \<noteq> []" "c \<noteq> ''.''" by auto
  then have "list_ex (\<lambda>c. CHR 0x00 \<in> set c) (parts (Path s))"
    using c by (auto simp: Path_def list_ex_iff)
  then show ?thesis by (simp add: path_resolve_def)
qed

theorem nul_byte_fails_before_fetch:
  assumes "logged_in w" and "CHR 0x00 \<in> set dir_path"
  shows "export_completed_stock_orders a w dir_path file_name account = (w, Inl ValueError) \<and>
         export_completed_crypto_orders a w dir_path file_name = (w, Inl ValueError) \<and>
         export_completed_option_orders a w dir_path file_name = (w, Inl ValueError)"
  using assms(1)
  by (simp add: export_completed_stock_orders_def export_completed_crypto_orders_def
      export_completed_option_orders_def login_required_def create_absolute_csv_def
      path_resolve_nul[OF assms(2)])

theorem nul_byte_fails_before_fetch_witness:
  "export_completed_stock_orders demo_api demo_world [CHR ''a'', CHR 0x00] None PNone =
     (demo_world, Inl ValueError)"
  using nul_byte_fails_before_fetch
    [where a = demo_api and w = demo_world and dir_path = "[CHR ''a'', CHR 0x00]"
       and file_name = None and account = PNone]
  by (simp add: demo_world_def)

section \<open>What an export leaves in the file\<close>

lemma demo_stock_rows:
  "stock_rows demo_api [demo_filled_order, demo_cancelled_order] =
     ([[PStr ''AAPL'', PStr ''2021-02-01T15:00:00Z'', PStr ''market'', PStr ''buy'',
        PStr ''0.00'', PNum 10, PNum 150],
       [PStr ''AAPL'', PStr ''2021-03-01T14:30:00Z'', PStr ''limit'', PStr ''sell'',
        PStr ''0.02'', PNum 3, PNum 100],
       [PStr ''AAPL'', PStr ''2021-03-01T14:31:00Z'', PStr ''limit'', PStr ''sell'',
        PStr ''0.02'', PNum 2, PNum 105]], None)"
  by (simp add: stock_rows_def demo_filled_order_rows demo_cancelled_order_rows)

lemma demo_default_path:
  "create_absolute_csv (cwd demo_world) ''.'' None ''stock'' =
      Inr \<lparr>anchor = ''/'', parts = [''home'', ''user'', ''stock_orders.csv'']\<rparr>"
  by (simp add: create_absolute_csv_def path_resolve_def default_name Path_def path_root_def
      resolve_def collapse_def joinpath_def demo_home_def demo_world_def)

text \<open>
  When the session is logged in, the order list is fetched and the file can be opened,
  the stock export leaves the header and the rows of the loop in the file, and it raises
  exactly when the loop did: the rows written before an exception are in the file.
\<close>

theorem stock_export_writes_rows:
  assumes "logged_in w"
      and "create_absolute_csv (cwd w) dir_path file_name ''stock'' = Inr file_path"
      and "get_all_stock_orders a account = Inr orders"
      and "open_error w file_path = None"
  shows "files (fst (export_completed_stock_orders a w dir_path file_name account)) file_path =
           Some (stock_header # fst (stock_rows a orders)) \<and>
         snd (export_completed_stock_orders a w dir_path file_name account) =
           (case snd (stock_rows a orders) of None \<Rightarrow> Inr () | Some e \<Rightarrow> Inl e)"
  using assms
  by (simp add: export_completed_stock_orders_def login_required_def write_csv_def
      open_w_def Let_def)

text \<open>The scenario of the spec: one filled order and one cancelled order with two
  executions give the header and three rows.\<close>

theorem stock_export_writes_rows_witness:
  "files (fst (export_completed_stock_orders demo_api demo_world ''.'' None PNone))
     \<lparr>anchor = ''/'', parts = [''home'', ''user'', ''stock_orders.csv'']\<rparr> =
     Some [stock_header,
       [PStr ''AAPL'', PStr ''2021-02-01T15:00:00Z'', PStr ''market'', PStr ''buy'',
        PStr ''0.00'', PNum 10, PNum 150],
       [PStr ''AAPL'', PStr ''2021-03-01T14:30:00Z'', PStr ''limit'', PStr ''sell'',
        PStr ''0.02'', PNum 3, PNum 100],
       [PStr ''AAPL'', PStr ''2021-03-01T14:31:00Z'', PStr ''limit'', PStr ''sell'',
        PStr ''0.02'', PNum 2, PNum 105]] \<and>
   snd (export_completed_stock_orders demo_api demo_world ''.'' None PNone) = Inr ()"
proof -
  have "logged_in demo_world"
    by (simp add: demo_world_def)
  moreover have "get_all_stock_orders demo_api PNone =
      Inr [demo_filled_order, demo_cancelled_order]"
    by (simp add: demo_api_def)
  moreover have
    "open_error demo_world \<lparr>anchor = ''/'', parts = [''home'', ''user'', ''stock_orders.csv'']\<rparr>
       = None"
    by (simp add: demo_world_def demo_open_error_def demo_is_dir_def parent_def)
  ultimately show ?thesis
    using stock_export_writes_rows
      [where a = demo_api and w = demo_world and dir_path = "''.''" and file_name = None
         and account = PNone and orders = "[demo_filled_order, demo_cancelled_order]"
         and file_path = "\<lparr>anchor = ''/'', parts = [''home'', ''user'', ''stock_orders.csv'']\<rparr>"]
      demo_default_path
    by (simp add: demo_stock_rows)
qed

end
